theory Spec2Isabelle
  imports Main "HOL-Library.Word"
begin

section \<open>Data model\<close>

text \<open>
  The role service of \<^verbatim>\<open>package service\<close> orchestrates two external collaborators:
  the role repository (\<^verbatim>\<open>svc.role\<close>) and the access controller (\<^verbatim>\<open>svc.ac\<close>).
  Identifiers are Go \<^verbatim>\<open>uint64\<close> values.
\<close>

type_synonym uint64 = "64 word"

text \<open>
  \<^verbatim>\<open>types.Role\<close> of the system package. The service reads and writes exactly three of
  its fields: \<^verbatim>\<open>ID\<close>, \<^verbatim>\<open>Name\<close> and \<^verbatim>\<open>Handle\<close>. Every other field of the struct
  (lifecycle timestamps and whatever else the struct carries) is the extension part
  \<open>Role.more\<close> of the record scheme \<open>'a Role_scheme\<close>, which the service never touches.
\<close>

record Role =
  ID :: uint64
  Name :: string
  Handle :: string

record RoleMember =
  RoleID :: uint64
  UserID :: uint64

text \<open>
  Modelled from the spec: \<^verbatim>\<open>types.RoleFilter\<close>, whose declaration is not part of the
  service file. It is a query shape with a free-text match, the deletion-visibility flag
  (\<open>0\<close> requests neither deleted nor archived roles; the service only tests
  \<^verbatim>\<open>f.Deleted > 0\<close>) and the read-visibility predicate \<^verbatim>\<open>IsReadable\<close>, an opaque value
  of type \<open>'p\<close> produced by the access controller.
\<close>

record 'p RoleFilter =
  Query :: string
  Deleted :: nat
  IsReadable :: 'p

text \<open>
  Errors. The service errors are the \<^verbatim>\<open>serviceError\<close> constants
  (\<^verbatim>\<open>withStack\<close> only attaches a stack trace and keeps the kind), the ad hoc
  \<^verbatim>\<open>errors.New(msg)\<close> of the member operations, and whatever error the repository
  returns, forwarded as it is (\<open>RepoErr\<close>).
\<close>

datatype 'e error =
    ErrInvalidID
  | ErrInvalidHandle
  | ErrNoPermissions
  | ErrNoCreatePermissions
  | ErrNoUpdatePermissions
  | ErrRoleNameNotUnique
  | ErrRoleHandleNotUnique
  | ErrorsNew string
  | RepoErr 'e

section \<open>The external collaborators\<close>

text \<open>
  \<^verbatim>\<open>roleAccessController\<close>: one answer per capability for the acting identity carried by
  \<^verbatim>\<open>svc.ctx\<close>, which is fixed for a service instance.
\<close>

record ('a, 'p) roleAccessController =
  CanAccess :: bool
  CanCreateRole :: bool
  CanReadRole :: "'a Role_scheme \<Rightarrow> bool"
  CanUpdateRole :: "'a Role_scheme \<Rightarrow> bool"
  CanDeleteRole :: "'a Role_scheme \<Rightarrow> bool"
  CanManageRoleMembers :: "'a Role_scheme \<Rightarrow> bool"
  FilterReadableRoles :: 'p

text \<open>
  \<^verbatim>\<open>repository.RoleRepository\<close> over a durable store of type \<open>'s\<close>, with errors of
  type \<open>'e\<close>. A result \<^verbatim>\<open>error\<close> is an option, \<open>None\<close> being \<^verbatim>\<open>nil\<close>. Where the
  service tests the error of a result \<^verbatim>\<open>(*T, error)\<close> before it touches the value, the
  result is a sum: \<open>Inl\<close> the error, \<open>Inr\<close> the value. The lookups by name and by handle
  are different: \<^verbatim>\<open>UniqueCheck\<close> drops their error and tests the pointer, so their
  result is the pair that Go returns, the role (\<open>None\<close> for \<^verbatim>\<open>nil\<close>) and the error, and
  a repository may return a role together with an error. Lookups read the store. Writes
  and transitions return the store they leave behind together with their answer, so a
  primitive may fail after it has written.
\<close>

record ('s, 'e, 'a, 'p) RoleRepository =
  role_FindByID :: "'s \<Rightarrow> uint64 \<Rightarrow> 'e + 'a Role_scheme"
  role_FindByName :: "'s \<Rightarrow> string \<Rightarrow> 'a Role_scheme option \<times> 'e option"
  role_FindByHandle :: "'s \<Rightarrow> string \<Rightarrow> 'a Role_scheme option \<times> 'e option"
  role_Find :: "'s \<Rightarrow> 'p RoleFilter \<Rightarrow> 'a Role_scheme list \<times> 'p RoleFilter \<times> 'e option"
  role_Create :: "'s \<Rightarrow> 'a Role_scheme \<Rightarrow> ('e + 'a Role_scheme) \<times> 's"
  role_Update :: "'s \<Rightarrow> 'a Role_scheme \<Rightarrow> ('e + 'a Role_scheme) \<times> 's"
  role_ArchiveByID :: "'s \<Rightarrow> uint64 \<Rightarrow> 'e option \<times> 's"
  role_UnarchiveByID :: "'s \<Rightarrow> uint64 \<Rightarrow> 'e option \<times> 's"
  role_DeleteByID :: "'s \<Rightarrow> uint64 \<Rightarrow> 'e option \<times> 's"
  role_UndeleteByID :: "'s \<Rightarrow> uint64 \<Rightarrow> 'e option \<times> 's"
  role_MergeByID :: "'s \<Rightarrow> uint64 \<Rightarrow> uint64 \<Rightarrow> 'e option \<times> 's"
  role_MoveByID :: "'s \<Rightarrow> uint64 \<Rightarrow> uint64 \<Rightarrow> 'e option \<times> 's"
  role_MembershipsFindByUserID :: "'s \<Rightarrow> uint64 \<Rightarrow> 'e + RoleMember list"
  role_MemberFindByRoleID :: "'s \<Rightarrow> uint64 \<Rightarrow> 'e + RoleMember list"
  role_MemberAddByID :: "'s \<Rightarrow> uint64 \<Rightarrow> uint64 \<Rightarrow> 'e option \<times> 's"
  role_MemberRemoveByID :: "'s \<Rightarrow> uint64 \<Rightarrow> uint64 \<Rightarrow> 'e option \<times> 's"

text \<open>
  The struct \<^verbatim>\<open>role\<close> of the service: its access controller, its repository and the
  package function \<^verbatim>\<open>handle.IsValid\<close>, which is taken as a parameter.
\<close>

record ('s, 'e, 'a, 'p) role_svc =
  ac :: "('a, 'p) roleAccessController"
  role :: "('s, 'e, 'a, 'p) RoleRepository"
  handle_IsValid :: "string \<Rightarrow> bool"

section \<open>The world: the store and the log of calls\<close>

text \<open>
  Every call that the service makes on the repository, and every begin, commit and
  rollback of the database handle, is appended to a log, in the order of execution.
\<close>

datatype ('a, 'p) call =
    TxBegin
  | TxCommit
  | TxRollback
  | Call_FindByID uint64
  | Call_FindByName string
  | Call_FindByHandle string
  | Call_Find "'p RoleFilter"
  | Call_Create "'a Role_scheme"
  | Call_Update "'a Role_scheme"
  | Call_ArchiveByID uint64
  | Call_UnarchiveByID uint64
  | Call_DeleteByID uint64
  | Call_UndeleteByID uint64
  | Call_MergeByID uint64 uint64
  | Call_MoveByID uint64 uint64
  | Call_MembershipsFindByUserID uint64
  | Call_MemberFindByRoleID uint64
  | Call_MemberAddByID uint64 uint64
  | Call_MemberRemoveByID uint64 uint64

record ('s, 'a, 'p) world =
  store :: 's
  calls :: "('a, 'p) call list"

definition invoke :: "('a, 'p) call \<Rightarrow> ('s, 'a, 'p) world \<Rightarrow> ('s, 'a, 'p) world" where
  "invoke c w = w\<lparr>calls := calls w @ [c]\<rparr>"

definition repo_read ::
  "('a, 'p) call \<Rightarrow> ('s \<Rightarrow> 'r) \<Rightarrow> ('s, 'a, 'p) world \<Rightarrow> 'r \<times> ('s, 'a, 'p) world" where
  "repo_read c f w = (f (store w), invoke c w)"

definition repo_write ::
  "('a, 'p) call \<Rightarrow> ('s \<Rightarrow> 'r \<times> 's) \<Rightarrow> ('s, 'a, 'p) world \<Rightarrow> 'r \<times> ('s, 'a, 'p) world" where
  "repo_write c f w = (fst (f (store w)), (invoke c w)\<lparr>store := snd (f (store w))\<rparr>)"

text \<open>
  Modelled from the spec: \<^verbatim>\<open>svc.db.Transaction\<close>, a method of the database handle whose
  code is not part of the service file. It runs the closure and commits only if the
  closure returns no error, rolling back otherwise: after a rollback the store is the
  one from before the transaction. The variable \<^verbatim>\<open>t\<close> that the closure assigns is the
  value carried by \<open>Inr\<close>.
\<close>

definition Transaction ::
  "(('s, 'a, 'p) world \<Rightarrow> ('x + 'r) \<times> ('s, 'a, 'p) world) \<Rightarrow>
   ('s, 'a, 'p) world \<Rightarrow> ('x + 'r) \<times> ('s, 'a, 'p) world" where
  "Transaction fn w =
     (case fn (invoke TxBegin w) of
        (Inl err, w') \<Rightarrow> (Inl err, invoke TxRollback (w'\<lparr>store := store w\<rparr>))
      | (Inr t, w') \<Rightarrow> (Inr t, invoke TxCommit w'))"

section \<open>The role service\<close>

definition findByID ::
  "('s, 'e, 'a, 'p) role_svc \<Rightarrow> uint64 \<Rightarrow> ('s, 'a, 'p) world \<Rightarrow>
   ('e error + 'a Role_scheme) \<times> ('s, 'a, 'p) world" where
  "findByID svc roleID w =
     (if roleID = 0 then (Inl ErrInvalidID, w)
      else case repo_read (Call_FindByID roleID) (\<lambda>s. role_FindByID (role svc) s roleID) w of
          (Inl err, w1) \<Rightarrow> (Inl (RepoErr err), w1)
        | (Inr r, w1) \<Rightarrow>
            if \<not> CanReadRole (ac svc) r then (Inl ErrNoPermissions, w1)
            else (Inr r, w1))"

definition FindByID ::
  "('s, 'e, 'a, 'p) role_svc \<Rightarrow> uint64 \<Rightarrow> ('s, 'a, 'p) world \<Rightarrow>
   ('e error + 'a Role_scheme) \<times> ('s, 'a, 'p) world" where
  "FindByID svc roleID w = findByID svc roleID w"

text \<open>
  \<^verbatim>\<open>Find\<close> returns the triple (set, filter, error); a \<^verbatim>\<open>nil\<close> set is the empty list.
\<close>

definition Find ::
  "('s, 'e, 'a, 'p) role_svc \<Rightarrow> 'p RoleFilter \<Rightarrow> ('s, 'a, 'p) world \<Rightarrow>
   ('a Role_scheme list \<times> 'p RoleFilter \<times> 'e error option) \<times> ('s, 'a, 'p) world" where
  "Find svc f0 w =
     (let f = f0\<lparr>IsReadable := FilterReadableRoles (ac svc)\<rparr> in
      if 0 < Deleted f \<and> \<not> CanAccess (ac svc) then (([], f, Some ErrNoPermissions), w)
      else case repo_read (Call_Find f) (\<lambda>s. role_Find (role svc) s f) w of
          ((rs, f', err), w1) \<Rightarrow> ((rs, f', map_option RepoErr err), w1))"

text \<open>
  \<^verbatim>\<open>FindByName\<close> and \<^verbatim>\<open>FindByHandle\<close> return the pair of the repository as it is.
\<close>

definition FindByName ::
  "('s, 'e, 'a, 'p) role_svc \<Rightarrow> string \<Rightarrow> ('s, 'a, 'p) world \<Rightarrow>
   ('a Role_scheme option \<times> 'e error option) \<times> ('s, 'a, 'p) world" where
  "FindByName svc rolename w =
     (case repo_read (Call_FindByName rolename) (\<lambda>s. role_FindByName (role svc) s rolename) w of
        ((r, err), w1) \<Rightarrow> ((r, map_option RepoErr err), w1))"

definition FindByHandle ::
  "('s, 'e, 'a, 'p) role_svc \<Rightarrow> string \<Rightarrow> ('s, 'a, 'p) world \<Rightarrow>
   ('a Role_scheme option \<times> 'e error option) \<times> ('s, 'a, 'p) world" where
  "FindByHandle svc h w =
     (case repo_read (Call_FindByHandle h) (\<lambda>s. role_FindByHandle (role svc) s h) w of
        ((r, err), w1) \<Rightarrow> ((r, map_option RepoErr err), w1))"

text \<open>
  \<^verbatim>\<open>UniqueCheck\<close>: both lookups drop the error of the repository
  (\<^verbatim>\<open>ex, _ := ...\<close>) and test \<^verbatim>\<open>ex != nil && ex.ID > 0 && ex.ID != r.ID\<close>.
\<close>

definition UniqueCheck ::
  "('s, 'e, 'a, 'p) role_svc \<Rightarrow> 'a Role_scheme \<Rightarrow> ('s, 'a, 'p) world \<Rightarrow>
   'e error option \<times> ('s, 'a, 'p) world" where
  "UniqueCheck svc r w =
     (let (taken_handle, w1) =
        (if Handle r \<noteq> [] then
           (case repo_read (Call_FindByHandle (Handle r))
                   (\<lambda>s. role_FindByHandle (role svc) s (Handle r)) w of
              ((Some ex, _), w') \<Rightarrow> (0 < ID ex \<and> ID ex \<noteq> ID r, w')
            | ((None, _), w') \<Rightarrow> (False, w'))
         else (False, w))
      in if taken_handle then (Some ErrRoleHandleNotUnique, w1)
      else
        let (taken_name, w2) =
          (if Name r \<noteq> [] then
             (case repo_read (Call_FindByName (Name r))
                     (\<lambda>s. role_FindByName (role svc) s (Name r)) w1 of
                ((Some ex, _), w') \<Rightarrow> (0 < ID ex \<and> ID ex \<noteq> ID r, w')
              | ((None, _), w') \<Rightarrow> (False, w'))
           else (False, w1))
        in if taken_name then (Some ErrRoleNameNotUnique, w2) else (None, w2))"

text \<open>
  \<^verbatim>\<open>Create\<close> and \<^verbatim>\<open>Update\<close> end with \<^verbatim>\<open>return t, svc.db.Transaction(func() ...)\<close>, where
  the closure assigns the named result \<^verbatim>\<open>t\<close>. The result is a sum: \<open>Inr t\<close> when the
  error is \<^verbatim>\<open>nil\<close>, and \<open>Inl err\<close> otherwise, whatever \<^verbatim>\<open>t\<close> holds then (\<^verbatim>\<open>Update\<close>
  returns the fetched role beside the error of the uniqueness check).
\<close>

definition Create ::
  "('s, 'e, 'a, 'p) role_svc \<Rightarrow> 'a Role_scheme \<Rightarrow> ('s, 'a, 'p) world \<Rightarrow>
   ('e error + 'a Role_scheme) \<times> ('s, 'a, 'p) world" where
  "Create svc md w =
     (if \<not> handle_IsValid svc (Handle md) then (Inl ErrInvalidHandle, w)
      else if \<not> CanCreateRole (ac svc) then (Inl ErrNoCreatePermissions, w)
      else Transaction (\<lambda>w0.
        case UniqueCheck svc md w0 of
          (Some err, w1) \<Rightarrow> (Inl err, w1)
        | (None, w1) \<Rightarrow>
            (case repo_write (Call_Create md) (\<lambda>s. role_Create (role svc) s md) w1 of
               (r, w2) \<Rightarrow> (map_sum RepoErr (\<lambda>x. x) r, w2))) w)"

definition Update ::
  "('s, 'e, 'a, 'p) role_svc \<Rightarrow> 'a Role_scheme \<Rightarrow> ('s, 'a, 'p) world \<Rightarrow>
   ('e error + 'a Role_scheme) \<times> ('s, 'a, 'p) world" where
  "Update svc md w =
     (if ID md = 0 then (Inl ErrInvalidID, w)
      else if \<not> handle_IsValid svc (Handle md) then (Inl ErrInvalidHandle, w)
      else if \<not> CanUpdateRole (ac svc) md then (Inl ErrNoUpdatePermissions, w)
      else Transaction (\<lambda>w0.
        case repo_read (Call_FindByID (ID md)) (\<lambda>s. role_FindByID (role svc) s (ID md)) w0 of
          (Inl err, w1) \<Rightarrow> (Inl (RepoErr err), w1)
        | (Inr t, w1) \<Rightarrow>
            (case UniqueCheck svc md w1 of
               (Some err, w2) \<Rightarrow> (Inl err, w2)
             | (None, w2) \<Rightarrow>
                 (let t' = t\<lparr>Name := Name md, Handle := Handle md\<rparr> in
                  case repo_write (Call_Update t') (\<lambda>s. role_Update (role svc) s t') w2 of
                    (r, w3) \<Rightarrow> (map_sum RepoErr (\<lambda>x. x) r, w3)))) w)"

definition Delete ::
  "('s, 'e, 'a, 'p) role_svc \<Rightarrow> uint64 \<Rightarrow> ('s, 'a, 'p) world \<Rightarrow>
   'e error option \<times> ('s, 'a, 'p) world" where
  "Delete svc roleID w =
     (case findByID svc roleID w of
        (Inl err, w1) \<Rightarrow> (Some err, w1)
      | (Inr r, w1) \<Rightarrow>
          if \<not> CanDeleteRole (ac svc) r then (Some ErrNoPermissions, w1)
          else case repo_write (Call_DeleteByID roleID)
                      (\<lambda>s. role_DeleteByID (role svc) s roleID) w1 of
              (err, w2) \<Rightarrow> (map_option RepoErr err, w2))"

definition Undelete ::
  "('s, 'e, 'a, 'p) role_svc \<Rightarrow> uint64 \<Rightarrow> ('s, 'a, 'p) world \<Rightarrow>
   'e error option \<times> ('s, 'a, 'p) world" where
  "Undelete svc roleID w =
     (case findByID svc roleID w of
        (Inl err, w1) \<Rightarrow> (Some err, w1)
      | (Inr r, w1) \<Rightarrow>
          if \<not> CanDeleteRole (ac svc) r then (Some ErrNoPermissions, w1)
          else case repo_write (Call_UndeleteByID roleID)
                      (\<lambda>s. role_UndeleteByID (role svc) s roleID) w1 of
              (err, w2) \<Rightarrow> (map_option RepoErr err, w2))"

definition Archive ::
  "('s, 'e, 'a, 'p) role_svc \<Rightarrow> uint64 \<Rightarrow> ('s, 'a, 'p) world \<Rightarrow>
   'e error option \<times> ('s, 'a, 'p) world" where
  "Archive svc roleID w =
     (case findByID svc roleID w of
        (Inl err, w1) \<Rightarrow> (Some err, w1)
      | (Inr r, w1) \<Rightarrow>
          if \<not> CanUpdateRole (ac svc) r then (Some ErrNoPermissions, w1)
          else case repo_write (Call_ArchiveByID roleID)
                      (\<lambda>s. role_ArchiveByID (role svc) s roleID) w1 of
              (err, w2) \<Rightarrow> (map_option RepoErr err, w2))"

definition Unarchive ::
  "('s, 'e, 'a, 'p) role_svc \<Rightarrow> uint64 \<Rightarrow> ('s, 'a, 'p) world \<Rightarrow>
   'e error option \<times> ('s, 'a, 'p) world" where
  "Unarchive svc roleID w =
     (case findByID svc roleID w of
        (Inl err, w1) \<Rightarrow> (Some err, w1)
      | (Inr r, w1) \<Rightarrow>
          if \<not> CanUpdateRole (ac svc) r then (Some ErrNoPermissions, w1)
          else case repo_write (Call_UnarchiveByID roleID)
                      (\<lambda>s. role_UnarchiveByID (role svc) s roleID) w1 of
              (err, w2) \<Rightarrow> (map_option RepoErr err, w2))"

definition Merge ::
  "('s, 'e, 'a, 'p) role_svc \<Rightarrow> uint64 \<Rightarrow> uint64 \<Rightarrow> ('s, 'a, 'p) world \<Rightarrow>
   'e error option \<times> ('s, 'a, 'p) world" where
  "Merge svc roleID targetRoleID w =
     (case findByID svc roleID w of
        (Inl err, w1) \<Rightarrow> (Some err, w1)
      | (Inr r, w1) \<Rightarrow>
          if targetRoleID = 0 then (Some ErrInvalidID, w1)
          else if \<not> CanUpdateRole (ac svc) r then (Some ErrNoPermissions, w1)
          else case repo_write (Call_MergeByID roleID targetRoleID)
                      (\<lambda>s. role_MergeByID (role svc) s roleID targetRoleID) w1 of
              (err, w2) \<Rightarrow> (map_option RepoErr err, w2))"

definition Move ::
  "('s, 'e, 'a, 'p) role_svc \<Rightarrow> uint64 \<Rightarrow> uint64 \<Rightarrow> ('s, 'a, 'p) world \<Rightarrow>
   'e error option \<times> ('s, 'a, 'p) world" where
  "Move svc roleID targetOrganisationID w =
     (case findByID svc roleID w of
        (Inl err, w1) \<Rightarrow> (Some err, w1)
      | (Inr r, w1) \<Rightarrow>
          if targetOrganisationID = 0 then (Some ErrInvalidID, w1)
          else if \<not> CanUpdateRole (ac svc) r then (Some ErrNoPermissions, w1)
          else case repo_write (Call_MoveByID roleID targetOrganisationID)
                      (\<lambda>s. role_MoveByID (role svc) s roleID targetOrganisationID) w1 of
              (err, w2) \<Rightarrow> (map_option RepoErr err, w2))"

definition Membership ::
  "('s, 'e, 'a, 'p) role_svc \<Rightarrow> uint64 \<Rightarrow> ('s, 'a, 'p) world \<Rightarrow>
   ('e error + RoleMember list) \<times> ('s, 'a, 'p) world" where
  "Membership svc userID w =
     (case repo_read (Call_MembershipsFindByUserID userID)
             (\<lambda>s. role_MembershipsFindByUserID (role svc) s userID) w of
        (r, w1) \<Rightarrow> (map_sum RepoErr (\<lambda>x. x) r, w1))"

definition MemberList ::
  "('s, 'e, 'a, 'p) role_svc \<Rightarrow> uint64 \<Rightarrow> ('s, 'a, 'p) world \<Rightarrow>
   ('e error + RoleMember list) \<times> ('s, 'a, 'p) world" where
  "MemberList svc roleID w =
     (case findByID svc roleID w of
        (Inl err, w1) \<Rightarrow> (Inl err, w1)
      | (Inr _, w1) \<Rightarrow>
          (case repo_read (Call_MemberFindByRoleID roleID)
                  (\<lambda>s. role_MemberFindByRoleID (role svc) s roleID) w1 of
             (r, w2) \<Rightarrow> (map_sum RepoErr (\<lambda>x. x) r, w2)))"

definition MemberAdd ::
  "('s, 'e, 'a, 'p) role_svc \<Rightarrow> uint64 \<Rightarrow> uint64 \<Rightarrow> ('s, 'a, 'p) world \<Rightarrow>
   'e error option \<times> ('s, 'a, 'p) world" where
  "MemberAdd svc roleID userID w =
     (case findByID svc roleID w of
        (Inl err, w1) \<Rightarrow> (Some err, w1)
      | (Inr r, w1) \<Rightarrow>
          if userID = 0 then (Some ErrInvalidID, w1)
          else if \<not> CanManageRoleMembers (ac svc) r
            then (Some (ErrorsNew ''Not allowed to manage role members''), w1)
          else case repo_write (Call_MemberAddByID roleID userID)
                      (\<lambda>s. role_MemberAddByID (role svc) s roleID userID) w1 of
              (err, w2) \<Rightarrow> (map_option RepoErr err, w2))"

definition MemberRemove ::
  "('s, 'e, 'a, 'p) role_svc \<Rightarrow> uint64 \<Rightarrow> uint64 \<Rightarrow> ('s, 'a, 'p) world \<Rightarrow>
   'e error option \<times> ('s, 'a, 'p) world" where
  "MemberRemove svc roleID userID w =
     (case findByID svc roleID w of
        (Inl err, w1) \<Rightarrow> (Some err, w1)
      | (Inr r, w1) \<Rightarrow>
          if userID = 0 then (Some ErrInvalidID, w1)
          else if \<not> CanManageRoleMembers (ac svc) r
            then (Some (ErrorsNew ''Not allowed to manage role members''), w1)
          else case repo_write (Call_MemberRemoveByID roleID userID)
                      (\<lambda>s. role_MemberRemoveByID (role svc) s roleID userID) w1 of
              (err, w2) \<Rightarrow> (map_option RepoErr err, w2))"

section \<open>The service interface as requests\<close>

text \<open>
  The interface \<^verbatim>\<open>RoleService\<close> lists sixteen operations. A request names one of them
  with its arguments; \<open>perform\<close> runs it and keeps what every operation has in common: the
  error it reports (\<open>None\<close> for \<^verbatim>\<open>nil\<close>) and the world it leaves.
\<close>

datatype ('a, 'p) operation =
    Op_FindByID uint64
  | Op_FindByName string
  | Op_FindByHandle string
  | Op_Find "'p RoleFilter"
  | Op_Create "'a Role_scheme"
  | Op_Update "'a Role_scheme"
  | Op_Merge uint64 uint64
  | Op_Move uint64 uint64
  | Op_Archive uint64
  | Op_Unarchive uint64
  | Op_Delete uint64
  | Op_Undelete uint64
  | Op_Membership uint64
  | Op_MemberList uint64
  | Op_MemberAdd uint64 uint64
  | Op_MemberRemove uint64 uint64

definition err_of :: "'x + 'r \<Rightarrow> 'x option" where
  "err_of r = (case r of Inl e \<Rightarrow> Some e | Inr _ \<Rightarrow> None)"

fun perform ::
  "('s, 'e, 'a, 'p) role_svc \<Rightarrow> ('a, 'p) operation \<Rightarrow> ('s, 'a, 'p) world \<Rightarrow>
   'e error option \<times> ('s, 'a, 'p) world" where
  "perform svc (Op_FindByID i) w = (err_of (fst (FindByID svc i w)), snd (FindByID svc i w))"
| "perform svc (Op_FindByName n) w = (snd (fst (FindByName svc n w)), snd (FindByName svc n w))"
| "perform svc (Op_FindByHandle h) w =
     (snd (fst (FindByHandle svc h w)), snd (FindByHandle svc h w))"
| "perform svc (Op_Find f) w = (snd (snd (fst (Find svc f w))), snd (Find svc f w))"
| "perform svc (Op_Create md) w = (err_of (fst (Create svc md w)), snd (Create svc md w))"
| "perform svc (Op_Update md) w = (err_of (fst (Update svc md w)), snd (Update svc md w))"
| "perform svc (Op_Merge i t) w = Merge svc i t w"
| "perform svc (Op_Move i t) w = Move svc i t w"
| "perform svc (Op_Archive i) w = Archive svc i w"
| "perform svc (Op_Unarchive i) w = Unarchive svc i w"
| "perform svc (Op_Delete i) w = Delete svc i w"
| "perform svc (Op_Undelete i) w = Undelete svc i w"
| "perform svc (Op_Membership u) w =
     (err_of (fst (Membership svc u w)), snd (Membership svc u w))"
| "perform svc (Op_MemberList i) w =
     (err_of (fst (MemberList svc i w)), snd (MemberList svc i w))"
| "perform svc (Op_MemberAdd i u) w = MemberAdd svc i u w"
| "perform svc (Op_MemberRemove i u) w = MemberRemove svc i u w"

fun is_gate_error :: "'e error \<Rightarrow> bool" where
  "is_gate_error ErrInvalidID = True"
| "is_gate_error ErrInvalidHandle = True"
| "is_gate_error ErrNoPermissions = True"
| "is_gate_error ErrNoCreatePermissions = True"
| "is_gate_error ErrNoUpdatePermissions = True"
| "is_gate_error _ = False"


text \<open>
  The lookups that a uniqueness check makes when it finds no conflict: the handle
  first, then the name, each only when it is not empty.
\<close>

definition unique_lookups :: "'a Role_scheme \<Rightarrow> ('a, 'p) call list" where
  "unique_lookups r =
     (if Handle r \<noteq> [] then [Call_FindByHandle (Handle r)] else []) @
     (if Name r \<noteq> [] then [Call_FindByName (Name r)] else [])"

text \<open>
  The test that \<^verbatim>\<open>UniqueCheck\<close> applies to the pointer that a lookup returns:
  \<^verbatim>\<open>ex != nil && ex.ID > 0 && ex.ID != r.ID\<close>.
\<close>

definition taken :: "'a Role_scheme option \<Rightarrow> uint64 \<Rightarrow> bool" where
  "taken ex i = (case ex of None \<Rightarrow> False | Some x \<Rightarrow> 0 < ID x \<and> ID x \<noteq> i)"

text \<open>
  The repository with the errors of its lookups by handle and by name replaced by
  \<open>eh\<close> and \<open>en\<close>; the roles that the lookups return stay.
\<close>

definition with_lookup_errors ::
  "('s, 'e, 'a, 'p) RoleRepository \<Rightarrow> ('s \<Rightarrow> string \<Rightarrow> 'e option) \<Rightarrow> ('s \<Rightarrow> string \<Rightarrow> 'e option) \<Rightarrow>
   ('s, 'e, 'a, 'p) RoleRepository" where
  "with_lookup_errors repo eh en =
     repo\<lparr> role_FindByName := (\<lambda>s n. (fst (role_FindByName repo s n), en s n)),
           role_FindByHandle := (\<lambda>s h. (fst (role_FindByHandle repo s h), eh s h)) \<rparr>"

text \<open>
  Eight operations end with a single write of the repository outside any transaction.
  \<open>single_call\<close> is the answer of that write on a store: its error and the store it
  leaves. The other operations have none.
\<close>

fun single_call ::
  "('s, 'e, 'a, 'p) RoleRepository \<Rightarrow> ('a, 'p) operation \<Rightarrow> 's \<Rightarrow> ('e option \<times> 's) option" where
  "single_call repo (Op_Merge i t) s = Some (role_MergeByID repo s i t)"
| "single_call repo (Op_Move i t) s = Some (role_MoveByID repo s i t)"
| "single_call repo (Op_Archive i) s = Some (role_ArchiveByID repo s i)"
| "single_call repo (Op_Unarchive i) s = Some (role_UnarchiveByID repo s i)"
| "single_call repo (Op_Delete i) s = Some (role_DeleteByID repo s i)"
| "single_call repo (Op_Undelete i) s = Some (role_UndeleteByID repo s i)"
| "single_call repo (Op_MemberAdd i u) s = Some (role_MemberAddByID repo s i u)"
| "single_call repo (Op_MemberRemove i u) s = Some (role_MemberRemoveByID repo s i u)"
| "single_call repo _ s = None"

text \<open>
  The six state transitions of a role have one shape. A transition names the operation
  (with its target, for merge and move); \<open>transition_op\<close> is the operation of the
  service, \<open>capability\<close> the capability that the operation asks the access controller
  for, \<open>transition_call\<close> and \<open>repo_transition\<close> the primitive of the repository that
  it issues, and \<open>target_ok\<close> says that the target of a merge or a move is not zero.
\<close>

datatype transition = T_Delete | T_Undelete | T_Archive | T_Unarchive | T_Merge uint64 | T_Move uint64

fun transition_op ::
  "('s, 'e, 'a, 'p) role_svc \<Rightarrow> transition \<Rightarrow> uint64 \<Rightarrow> ('s, 'a, 'p) world \<Rightarrow>
   'e error option \<times> ('s, 'a, 'p) world" where
  "transition_op svc T_Delete roleID w = Delete svc roleID w"
| "transition_op svc T_Undelete roleID w = Undelete svc roleID w"
| "transition_op svc T_Archive roleID w = Archive svc roleID w"
| "transition_op svc T_Unarchive roleID w = Unarchive svc roleID w"
| "transition_op svc (T_Merge target) roleID w = Merge svc roleID target w"
| "transition_op svc (T_Move target) roleID w = Move svc roleID target w"

fun capability :: "('a, 'p) roleAccessController \<Rightarrow> transition \<Rightarrow> 'a Role_scheme \<Rightarrow> bool" where
  "capability a T_Delete = CanDeleteRole a"
| "capability a T_Undelete = CanDeleteRole a"
| "capability a T_Archive = CanUpdateRole a"
| "capability a T_Unarchive = CanUpdateRole a"
| "capability a (T_Merge target) = CanUpdateRole a"
| "capability a (T_Move target) = CanUpdateRole a"

fun transition_call :: "transition \<Rightarrow> uint64 \<Rightarrow> ('a, 'p) call" where
  "transition_call T_Delete roleID = Call_DeleteByID roleID"
| "transition_call T_Undelete roleID = Call_UndeleteByID roleID"
| "transition_call T_Archive roleID = Call_ArchiveByID roleID"
| "transition_call T_Unarchive roleID = Call_UnarchiveByID roleID"
| "transition_call (T_Merge target) roleID = Call_MergeByID roleID target"
| "transition_call (T_Move target) roleID = Call_MoveByID roleID target"

fun repo_transition ::
  "('s, 'e, 'a, 'p) RoleRepository \<Rightarrow> transition \<Rightarrow> 's \<Rightarrow> uint64 \<Rightarrow> 'e option \<times> 's" where
  "repo_transition repo T_Delete s roleID = role_DeleteByID repo s roleID"
| "repo_transition repo T_Undelete s roleID = role_UndeleteByID repo s roleID"
| "repo_transition repo T_Archive s roleID = role_ArchiveByID repo s roleID"
| "repo_transition repo T_Unarchive s roleID = role_UnarchiveByID repo s roleID"
| "repo_transition repo (T_Merge target) s roleID = role_MergeByID repo s roleID target"
| "repo_transition repo (T_Move target) s roleID = role_MoveByID repo s roleID target"

fun target_ok :: "transition \<Rightarrow> bool" where
  "target_ok (T_Merge target) = (target \<noteq> 0)"
| "target_ok (T_Move target) = (target \<noteq> 0)"
| "target_ok _ = True"

section \<open>An example instance\<close>

text \<open>
  A repository that keeps the roles in a list, an access controller that allows
  everything, and a handle predicate that accepts the empty handle and every handle of
  at least two characters. The store starts with the single role \<open>admins\<close>.
\<close>

definition lookup_role :: "(Role \<Rightarrow> bool) \<Rightarrow> Role list \<Rightarrow> string + Role" where
  "lookup_role P s = (case find P s of None \<Rightarrow> Inl ''role not found'' | Some r \<Rightarrow> Inr r)"

definition find_role :: "(Role \<Rightarrow> bool) \<Rightarrow> Role list \<Rightarrow> Role option \<times> string option" where
  "find_role P s =
     (case find P s of None \<Rightarrow> (None, Some ''role not found'') | Some r \<Rightarrow> (Some r, None))"

definition mem_repo :: "(Role list, string, unit, bool) RoleRepository" where
  "mem_repo =
     \<lparr> role_FindByID = (\<lambda>s i. lookup_role (\<lambda>r. ID r = i) s),
       role_FindByName = (\<lambda>s n. find_role (\<lambda>r. Name r = n) s),
       role_FindByHandle = (\<lambda>s h. find_role (\<lambda>r. Handle r = h) s),
       role_Find = (\<lambda>s f. (s, f, None)),
       role_Create = (\<lambda>s r. (Inr r, s @ [r])),
       role_Update = (\<lambda>s r. (Inr r, map (\<lambda>x. if ID x = ID r then r else x) s)),
       role_ArchiveByID = (\<lambda>s i. (None, s)),
       role_UnarchiveByID = (\<lambda>s i. (None, s)),
       role_DeleteByID = (\<lambda>s i. (None, filter (\<lambda>x. ID x \<noteq> i) s)),
       role_UndeleteByID = (\<lambda>s i. (None, s)),
       role_MergeByID = (\<lambda>s i t. (Some ''not implemented'', s)),
       role_MoveByID = (\<lambda>s i t. (Some ''not implemented'', s)),
       role_MembershipsFindByUserID = (\<lambda>s u. Inr []),
       role_MemberFindByRoleID = (\<lambda>s i. Inr []),
       role_MemberAddByID = (\<lambda>s i u. (None, s)),
       role_MemberRemoveByID = (\<lambda>s i u. (None, s)) \<rparr>"

definition allow_all :: "(unit, bool) roleAccessController" where
  "allow_all =
     \<lparr> CanAccess = True, CanCreateRole = True,
       CanReadRole = (\<lambda>r. True), CanUpdateRole = (\<lambda>r. True), CanDeleteRole = (\<lambda>r. True),
       CanManageRoleMembers = (\<lambda>r. True), FilterReadableRoles = True \<rparr>"

definition demo_svc :: "(Role list, string, unit, bool) role_svc" where
  "demo_svc = \<lparr> ac = allow_all, role = mem_repo, handle_IsValid = (\<lambda>h. h = [] \<or> 2 \<le> length h) \<rparr>"

definition admins :: Role where
  "admins = \<lparr> ID = 1, Name = ''Admins'', Handle = ''admins'' \<rparr>"

definition world0 :: "(Role list, unit, bool) world" where
  "world0 = \<lparr> store = [admins], calls = [] \<rparr>"

text \<open>
  A repository whose create, update and delete change the store and then report an
  error, and a repository whose lookups by handle and by name report an error beside
  whatever they find.
\<close>

definition faulty_repo :: "(Role list, string, unit, bool) RoleRepository" where
  "faulty_repo =
     mem_repo\<lparr> role_Create := (\<lambda>s r. (Inl ''write failed'', s @ [r])),
               role_Update := (\<lambda>s r. (Inl ''write failed'', [])),
               role_DeleteByID := (\<lambda>s i. (Some ''delete failed'', filter (\<lambda>x. ID x \<noteq> i) s)) \<rparr>"

definition erring_repo :: "(Role list, string, unit, bool) RoleRepository" where
  "erring_repo =
     with_lookup_errors mem_repo (\<lambda>s h. Some ''connection lost'') (\<lambda>s n. Some ''connection lost'')"

section \<open>Evaluation of the example instance\<close>

lemmas demo_defs = demo_svc_def mem_repo_def allow_all_def admins_def world0_def lookup_role_def
  find_role_def
  invoke_def repo_read_def repo_write_def findByID_def Transaction_def UniqueCheck_def

section \<open>Helper lemmas\<close>

lemma map_sum_RepoErr: "map_sum RepoErr f x = Inl e \<Longrightarrow> \<not> is_gate_error e"
  by (cases x) auto


lemma taken_iff: "taken ex i \<longleftrightarrow> (\<exists>x. ex = Some x \<and> ID x \<noteq> 0 \<and> ID x \<noteq> i)"
  by (cases ex) (auto simp add: taken_def word_gt_0)

lemma UniqueCheck_unfold:
  "UniqueCheck svc r w =
     (if Handle r \<noteq> [] \<and> taken (fst (role_FindByHandle (role svc) (store w) (Handle r))) (ID r)
      then (Some ErrRoleHandleNotUnique, w\<lparr>calls := calls w @ [Call_FindByHandle (Handle r)]\<rparr>)
      else if Name r \<noteq> [] \<and> taken (fst (role_FindByName (role svc) (store w) (Name r))) (ID r)
      then (Some ErrRoleNameNotUnique, w\<lparr>calls := calls w @ unique_lookups r\<rparr>)
      else (None, w\<lparr>calls := calls w @ unique_lookups r\<rparr>))"
proof -
  obtain hr he where h: "role_FindByHandle (role svc) (store w) (Handle r) = (hr, he)"
    by (cases "role_FindByHandle (role svc) (store w) (Handle r)")
  obtain nr ne where n: "role_FindByName (role svc) (store w) (Name r) = (nr, ne)"
    by (cases "role_FindByName (role svc) (store w) (Name r)")
  show ?thesis
    by (cases hr; cases nr)
       (simp_all add: UniqueCheck_def repo_read_def invoke_def h n taken_def unique_lookups_def)
qed

lemma UniqueCheck_store: "store (snd (UniqueCheck svc r w)) = store w"
  by (simp add: UniqueCheck_unfold)

lemma UniqueCheck_not_gate:
  "fst (UniqueCheck svc r w) = Some e \<Longrightarrow> \<not> is_gate_error e"
  by (auto simp add: UniqueCheck_unfold split: if_splits)

lemma findByID_cases:
  "findByID svc i w = (Inl ErrInvalidID, w) \<and> i = 0
   \<or> (\<exists>e. findByID svc i w = (Inl (RepoErr e), invoke (Call_FindByID i) w))
   \<or> (findByID svc i w = (Inl ErrNoPermissions, invoke (Call_FindByID i) w))
   \<or> (\<exists>r. findByID svc i w = (Inr r, invoke (Call_FindByID i) w)
        \<and> role_FindByID (role svc) (store w) i = Inr r \<and> CanReadRole (ac svc) r \<and> i \<noteq> 0)"
  by (auto simp add: findByID_def repo_read_def split: sum.splits)





lemma UniqueCheck_result:
  "fst (UniqueCheck svc r w) \<in> {None, Some ErrRoleHandleNotUnique, Some ErrRoleNameNotUnique}"
  by (simp add: UniqueCheck_unfold)

lemma Create_tx_error:
  "handle_IsValid svc (Handle md) \<Longrightarrow> CanCreateRole (ac svc) \<Longrightarrow>
   fst (Create svc md w) = Inl e \<Longrightarrow> \<not> is_gate_error e"
  using UniqueCheck_result [of svc md "invoke TxBegin w"]
  by (cases "UniqueCheck svc md (invoke TxBegin w)")
     (auto simp add: Create_def Transaction_def repo_write_def
           split: option.splits sum.splits prod.splits dest: map_sum_RepoErr)







section \<open>Uniqueness check\<close>

text \<open>
  C4, as the code has it. \<^verbatim>\<open>UniqueCheck(r)\<close> fails with \<^verbatim>\<open>RoleHandleNotUnique\<close> exactly
  when the handle of \<open>r\<close> is not empty and the lookup by handle returns a role whose ID
  is neither zero nor the ID of \<open>r\<close>; it fails with \<^verbatim>\<open>RoleNameNotUnique\<close> exactly when
  the handle check found no conflict and the same holds of the name; otherwise it
  reports no error. The error that a lookup returns is dropped and never changes the
  result: a lookup that returns no role is no conflict, with or without an error, and a
  role returned together with an error is tested like any returned role. A role with
  the ID of \<open>r\<close> is no conflict, and the check leaves the store as it was.
\<close>

theorem UniqueCheck_conflicts:
  "(fst (UniqueCheck svc r w) = Some ErrRoleHandleNotUnique \<longleftrightarrow>
      Handle r \<noteq> [] \<and>
      (\<exists>ex. fst (role_FindByHandle (role svc) (store w) (Handle r)) = Some ex \<and>
            ID ex \<noteq> 0 \<and> ID ex \<noteq> ID r))
   \<and> (fst (UniqueCheck svc r w) = Some ErrRoleNameNotUnique \<longleftrightarrow>
      \<not> (Handle r \<noteq> [] \<and>
         (\<exists>ex. fst (role_FindByHandle (role svc) (store w) (Handle r)) = Some ex \<and>
               ID ex \<noteq> 0 \<and> ID ex \<noteq> ID r)) \<and>
      Name r \<noteq> [] \<and>
      (\<exists>ex. fst (role_FindByName (role svc) (store w) (Name r)) = Some ex \<and>
            ID ex \<noteq> 0 \<and> ID ex \<noteq> ID r))
   \<and> fst (UniqueCheck svc r w) \<in> {None, Some ErrRoleHandleNotUnique, Some ErrRoleNameNotUnique}
   \<and> fst (UniqueCheck (svc\<lparr>role := with_lookup_errors (role svc) eh en\<rparr>) r w)
       = fst (UniqueCheck svc r w)
   \<and> (fst (role_FindByHandle (role svc) (store w) (Handle r)) = None \<longrightarrow>
        fst (UniqueCheck svc r w) \<noteq> Some ErrRoleHandleNotUnique)
   \<and> (fst (role_FindByName (role svc) (store w) (Name r)) = None \<longrightarrow>
        fst (UniqueCheck svc r w) \<noteq> Some ErrRoleNameNotUnique)
   \<and> ((\<exists>ex. fst (role_FindByHandle (role svc) (store w) (Handle r)) = Some ex \<and> ID ex = ID r)
        \<longrightarrow> fst (UniqueCheck svc r w) \<noteq> Some ErrRoleHandleNotUnique)
   \<and> ((\<exists>ex. fst (role_FindByName (role svc) (store w) (Name r)) = Some ex \<and> ID ex = ID r)
        \<longrightarrow> fst (UniqueCheck svc r w) \<noteq> Some ErrRoleNameNotUnique)
   \<and> store (snd (UniqueCheck svc r w)) = store w"
  by (auto simp add: UniqueCheck_unfold taken_iff with_lookup_errors_def)

text \<open>
  In the example store the role \<open>admins\<close> has ID 1. A role with ID 1 and the same handle
  and name passes the check; a role with ID 2 meets a conflict on the handle \<open>admins\<close>
  and, with another handle, on the name \<open>Admins\<close>; the lookup of the unknown handle
  \<open>guests\<close> returns no role and an error, and is no conflict. The answers are the same
  when every lookup reports an error.
\<close>

theorem UniqueCheck_conflicts_witness:
  "role_FindByHandle (role demo_svc) (store world0) ''admins'' = (Some admins, None)
   \<and> role_FindByHandle (role demo_svc) (store world0) ''guests'' = (None, Some ''role not found'')
   \<and> fst (UniqueCheck demo_svc admins world0) = None
   \<and> fst (UniqueCheck demo_svc \<lparr>ID = 2, Name = ''Guests'', Handle = ''admins''\<rparr> world0)
       = Some ErrRoleHandleNotUnique
   \<and> fst (UniqueCheck demo_svc \<lparr>ID = 2, Name = ''Admins'', Handle = ''guests''\<rparr> world0)
       = Some ErrRoleNameNotUnique
   \<and> fst (UniqueCheck demo_svc \<lparr>ID = 2, Name = ''Guests'', Handle = ''guests''\<rparr> world0) = None
   \<and> fst (UniqueCheck (demo_svc\<lparr>role := erring_repo\<rparr>) admins world0) = None
   \<and> fst (UniqueCheck (demo_svc\<lparr>role := erring_repo\<rparr>)
           \<lparr>ID = 2, Name = ''Guests'', Handle = ''guests''\<rparr> world0) = None"
  using UniqueCheck_conflicts [of demo_svc admins world0
      "\<lambda>s h. Some ''connection lost''" "\<lambda>s n. Some ''connection lost''"]
    UniqueCheck_conflicts [of demo_svc "\<lparr>ID = 2, Name = ''Guests'', Handle = ''admins''\<rparr>" world0]
    UniqueCheck_conflicts [of demo_svc "\<lparr>ID = 2, Name = ''Admins'', Handle = ''guests''\<rparr>" world0]
    UniqueCheck_conflicts [of demo_svc "\<lparr>ID = 2, Name = ''Guests'', Handle = ''guests''\<rparr>" world0
      "\<lambda>s h. Some ''connection lost''" "\<lambda>s n. Some ''connection lost''"]
  by (simp add: demo_defs erring_repo_def with_lookup_errors_def)

text \<open>
  A lookup that reports an error is a conflict all the same when it returns a role
  beside the error: the repository \<open>erring_repo\<close> finds \<open>admins\<close> under the handle
  \<open>admins\<close> and reports an error, and the check of a role with ID 2 and that handle
  fails with \<^verbatim>\<open>RoleHandleNotUnique\<close>.
\<close>

theorem UniqueCheck_conflict_despite_lookup_error:
  "role_FindByHandle erring_repo (store world0) ''admins''
     = (Some admins, Some ''connection lost'')
   \<and> fst (UniqueCheck (demo_svc\<lparr>role := erring_repo\<rparr>)
           \<lparr>ID = 2, Name = ''Guests'', Handle = ''admins''\<rparr> world0)
       = Some ErrRoleHandleNotUnique"
  by (simp add: demo_defs erring_repo_def with_lookup_errors_def)

section \<open>Validation and authorization failures\<close>




section \<open>The transactions of Create and Update\<close>

lemma store_invoke: "store (invoke c w) = store w"
  by (simp add: invoke_def)

lemma UniqueCheck_fst_cong:
  "store w1 = store w2 \<Longrightarrow> fst (UniqueCheck svc r w1) = fst (UniqueCheck svc r w2)"
  by (simp add: UniqueCheck_unfold)

lemma UniqueCheck_snd:
  "snd (UniqueCheck svc r w) =
     w\<lparr>calls := calls w @
        (if fst (UniqueCheck svc r w) = Some ErrRoleHandleNotUnique
         then [Call_FindByHandle (Handle r)] else unique_lookups r)\<rparr>"
  by (simp add: UniqueCheck_unfold)

lemma UniqueCheck_begin:
  "UniqueCheck svc r (invoke TxBegin w) =
     (fst (UniqueCheck svc r w),
      w\<lparr>calls := calls w @ [TxBegin] @
        (if fst (UniqueCheck svc r w) = Some ErrRoleHandleNotUnique
         then [Call_FindByHandle (Handle r)] else unique_lookups r)\<rparr>)"
proof -
  have f: "fst (UniqueCheck svc r (invoke TxBegin w)) = fst (UniqueCheck svc r w)"
    by (rule UniqueCheck_fst_cong) (simp add: invoke_def)
  have s: "snd (UniqueCheck svc r (invoke TxBegin w)) =
      w\<lparr>calls := calls w @ [TxBegin] @
        (if fst (UniqueCheck svc r w) = Some ErrRoleHandleNotUnique
         then [Call_FindByHandle (Handle r)] else unique_lookups r)\<rparr>"
    by (simp add: UniqueCheck_snd f) (simp add: invoke_def)
  show ?thesis
    using f s by (simp add: prod_eq_iff)
qed

lemma Create_invalid_handle:
  "\<not> handle_IsValid svc (Handle md) \<Longrightarrow> Create svc md w = (Inl ErrInvalidHandle, w)"
  by (simp add: Create_def)

lemma Create_no_permission:
  "handle_IsValid svc (Handle md) \<Longrightarrow> \<not> CanCreateRole (ac svc) \<Longrightarrow>
   Create svc md w = (Inl ErrNoCreatePermissions, w)"
  by (simp add: Create_def)

lemma Create_conflict:
  "handle_IsValid svc (Handle md) \<Longrightarrow> CanCreateRole (ac svc) \<Longrightarrow>
   fst (UniqueCheck svc md w) = Some e \<Longrightarrow>
   Create svc md w =
     (Inl e, w\<lparr>calls := calls w @ [TxBegin] @
        (if e = ErrRoleHandleNotUnique then [Call_FindByHandle (Handle md)]
         else unique_lookups md) @ [TxRollback]\<rparr>)"
  by (simp add: Create_def Transaction_def UniqueCheck_begin) (simp add: invoke_def)

lemma Create_persist:
  "handle_IsValid svc (Handle md) \<Longrightarrow> CanCreateRole (ac svc) \<Longrightarrow>
   fst (UniqueCheck svc md w) = None \<Longrightarrow>
   Create svc md w =
     (case role_Create (role svc) (store w) md of
        (Inl x, s') \<Rightarrow>
          (Inl (RepoErr x),
           w\<lparr>calls := calls w @ [TxBegin] @ unique_lookups md @ [Call_Create md, TxRollback]\<rparr>)
      | (Inr t, s') \<Rightarrow>
          (Inr t,
           w\<lparr>store := s',
             calls := calls w @ [TxBegin] @ unique_lookups md @ [Call_Create md, TxCommit]\<rparr>))"
  by (simp add: Create_def Transaction_def UniqueCheck_begin)
     (auto simp add: repo_write_def invoke_def split: prod.splits sum.splits)

lemma Update_fetch_fail:
  "ID md \<noteq> 0 \<Longrightarrow> handle_IsValid svc (Handle md) \<Longrightarrow> CanUpdateRole (ac svc) md \<Longrightarrow>
   role_FindByID (role svc) (store w) (ID md) = Inl x \<Longrightarrow>
   Update svc md w =
     (Inl (RepoErr x), w\<lparr>calls := calls w @ [TxBegin, Call_FindByID (ID md), TxRollback]\<rparr>)"
  by (simp add: Update_def Transaction_def repo_read_def invoke_def)

lemma UniqueCheck_fetch:
  "UniqueCheck svc r (invoke (Call_FindByID i) (invoke TxBegin w)) =
     (fst (UniqueCheck svc r w),
      w\<lparr>calls := calls w @ [TxBegin, Call_FindByID i] @
        (if fst (UniqueCheck svc r w) = Some ErrRoleHandleNotUnique
         then [Call_FindByHandle (Handle r)] else unique_lookups r)\<rparr>)"
proof -
  have f: "fst (UniqueCheck svc r (invoke (Call_FindByID i) (invoke TxBegin w))) =
      fst (UniqueCheck svc r w)"
    by (rule UniqueCheck_fst_cong) (simp add: invoke_def)
  have s: "snd (UniqueCheck svc r (invoke (Call_FindByID i) (invoke TxBegin w))) =
      w\<lparr>calls := calls w @ [TxBegin, Call_FindByID i] @
        (if fst (UniqueCheck svc r w) = Some ErrRoleHandleNotUnique
         then [Call_FindByHandle (Handle r)] else unique_lookups r)\<rparr>"
    by (simp add: UniqueCheck_snd f) (simp add: invoke_def)
  show ?thesis
    using f s by (simp add: prod_eq_iff)
qed

lemma Update_conflict:
  "ID md \<noteq> 0 \<Longrightarrow> handle_IsValid svc (Handle md) \<Longrightarrow> CanUpdateRole (ac svc) md \<Longrightarrow>
   role_FindByID (role svc) (store w) (ID md) = Inr t \<Longrightarrow>
   fst (UniqueCheck svc md w) = Some e \<Longrightarrow>
   Update svc md w =
     (Inl e, w\<lparr>calls := calls w @ [TxBegin, Call_FindByID (ID md)] @
        (if e = ErrRoleHandleNotUnique then [Call_FindByHandle (Handle md)]
         else unique_lookups md) @ [TxRollback]\<rparr>)"
  by (simp add: Update_def Transaction_def repo_read_def store_invoke UniqueCheck_fetch)
     (simp add: invoke_def)

lemma Update_persist:
  "ID md \<noteq> 0 \<Longrightarrow> handle_IsValid svc (Handle md) \<Longrightarrow> CanUpdateRole (ac svc) md \<Longrightarrow>
   role_FindByID (role svc) (store w) (ID md) = Inr t \<Longrightarrow>
   fst (UniqueCheck svc md w) = None \<Longrightarrow>
   Update svc md w =
     (case role_Update (role svc) (store w) (t\<lparr>Name := Name md, Handle := Handle md\<rparr>) of
        (Inl x, s') \<Rightarrow>
          (Inl (RepoErr x),
           w\<lparr>calls := calls w @ [TxBegin, Call_FindByID (ID md)] @ unique_lookups md @
              [Call_Update (t\<lparr>Name := Name md, Handle := Handle md\<rparr>), TxRollback]\<rparr>)
      | (Inr t2, s') \<Rightarrow>
          (Inr t2,
           w\<lparr>store := s',
             calls := calls w @ [TxBegin, Call_FindByID (ID md)] @ unique_lookups md @
              [Call_Update (t\<lparr>Name := Name md, Handle := Handle md\<rparr>), TxCommit]\<rparr>))"
  by (simp add: Update_def Transaction_def repo_read_def store_invoke UniqueCheck_fetch)
     (auto simp add: repo_write_def invoke_def Let_def split: prod.splits sum.splits)


section \<open>Create\<close>

text \<open>
  C3. \<^verbatim>\<open>Create(role)\<close> fails with \<^verbatim>\<open>InvalidHandle\<close> when the handle predicate rejects
  the handle; otherwise with \<^verbatim>\<open>NoCreatePermission\<close> when the caller lacks the create
  capability; in both cases nothing is called. Otherwise it opens one transaction, runs
  the uniqueness check (the lookup by handle before the lookup by name; a conflict ends
  the transaction with a rollback and \<^verbatim>\<open>RoleHandleNotUnique\<close> or \<^verbatim>\<open>RoleNameNotUnique\<close>,
  and the repository's create is never called), and only then calls the repository's
  create, committing when it succeeds and rolling back when it fails.
\<close>

theorem Create_order:
  "(\<not> handle_IsValid svc (Handle md) \<longrightarrow> Create svc md w = (Inl ErrInvalidHandle, w))
   \<and> (handle_IsValid svc (Handle md) \<and> \<not> CanCreateRole (ac svc) \<longrightarrow>
        Create svc md w = (Inl ErrNoCreatePermissions, w))
   \<and> (handle_IsValid svc (Handle md) \<and> CanCreateRole (ac svc) \<and>
        fst (UniqueCheck svc md w) = Some ErrRoleHandleNotUnique \<longrightarrow>
        Create svc md w =
          (Inl ErrRoleHandleNotUnique,
           w\<lparr>calls := calls w @ [TxBegin, Call_FindByHandle (Handle md), TxRollback]\<rparr>))
   \<and> (handle_IsValid svc (Handle md) \<and> CanCreateRole (ac svc) \<and>
        fst (UniqueCheck svc md w) = Some ErrRoleNameNotUnique \<longrightarrow>
        Create svc md w =
          (Inl ErrRoleNameNotUnique,
           w\<lparr>calls := calls w @ [TxBegin] @ unique_lookups md @ [TxRollback]\<rparr>))
   \<and> (handle_IsValid svc (Handle md) \<and> CanCreateRole (ac svc) \<and>
        fst (UniqueCheck svc md w) = None \<and>
        role_Create (role svc) (store w) md = (Inr t, s') \<longrightarrow>
        Create svc md w =
          (Inr t,
           w\<lparr>store := s',
             calls := calls w @ [TxBegin] @ unique_lookups md @ [Call_Create md, TxCommit]\<rparr>))
   \<and> (handle_IsValid svc (Handle md) \<and> CanCreateRole (ac svc) \<and>
        fst (UniqueCheck svc md w) = None \<and>
        role_Create (role svc) (store w) md = (Inl x, s') \<longrightarrow>
        Create svc md w =
          (Inl (RepoErr x),
           w\<lparr>calls := calls w @ [TxBegin] @ unique_lookups md @ [Call_Create md, TxRollback]\<rparr>))"
  using Create_conflict [of svc md w ErrRoleHandleNotUnique]
    Create_conflict [of svc md w ErrRoleNameNotUnique]
    Create_persist [of svc md w]
  by (simp add: Create_invalid_handle Create_no_permission)

theorem Create_order_witness:
  "\<not> handle_IsValid demo_svc ''x''
   \<and> Create demo_svc \<lparr>ID = 0, Name = ''Guests'', Handle = ''x''\<rparr> world0
       = (Inl ErrInvalidHandle, world0)
   \<and> Create (demo_svc\<lparr>ac := allow_all\<lparr>CanCreateRole := False\<rparr>\<rparr>)
         \<lparr>ID = 0, Name = ''Guests'', Handle = ''guests''\<rparr> world0
       = (Inl ErrNoCreatePermissions, world0)
   \<and> Create demo_svc \<lparr>ID = 0, Name = ''Guests'', Handle = ''admins''\<rparr> world0
       = (Inl ErrRoleHandleNotUnique,
          \<lparr>store = [admins], calls = [TxBegin, Call_FindByHandle ''admins'', TxRollback]\<rparr>)
   \<and> Create demo_svc \<lparr>ID = 0, Name = ''Admins'', Handle = ''guests''\<rparr> world0
       = (Inl ErrRoleNameNotUnique,
          \<lparr>store = [admins],
           calls = [TxBegin, Call_FindByHandle ''guests'', Call_FindByName ''Admins'',
                    TxRollback]\<rparr>)
   \<and> Create demo_svc \<lparr>ID = 0, Name = ''Guests'', Handle = ''guests''\<rparr> world0
       = (Inr \<lparr>ID = 0, Name = ''Guests'', Handle = ''guests''\<rparr>,
          \<lparr>store = [admins, \<lparr>ID = 0, Name = ''Guests'', Handle = ''guests''\<rparr>],
           calls = [TxBegin, Call_FindByHandle ''guests'', Call_FindByName ''Guests'',
                    Call_Create \<lparr>ID = 0, Name = ''Guests'', Handle = ''guests''\<rparr>, TxCommit]\<rparr>)"
  using Create_order [of demo_svc "\<lparr>ID = 0, Name = ''Guests'', Handle = ''x''\<rparr>" world0]
    Create_order [of "demo_svc\<lparr>ac := allow_all\<lparr>CanCreateRole := False\<rparr>\<rparr>"
      "\<lparr>ID = 0, Name = ''Guests'', Handle = ''guests''\<rparr>" world0]
    Create_order [of demo_svc "\<lparr>ID = 0, Name = ''Guests'', Handle = ''admins''\<rparr>" world0]
    Create_order [of demo_svc "\<lparr>ID = 0, Name = ''Admins'', Handle = ''guests''\<rparr>" world0]
    Create_order [of demo_svc "\<lparr>ID = 0, Name = ''Guests'', Handle = ''guests''\<rparr>" world0
      "\<lparr>ID = 0, Name = ''Guests'', Handle = ''guests''\<rparr>"
      "[admins, \<lparr>ID = 0, Name = ''Guests'', Handle = ''guests''\<rparr>]"]
  by (simp add: demo_defs unique_lookups_def)

text \<open>
  C9, as the code has it. For every role whose handle the handle predicate rejects,
  \<^verbatim>\<open>Create\<close> fails with \<^verbatim>\<open>InvalidHandle\<close> and calls nothing. The service has no test of
  its own for the empty handle: a role with the empty handle is rejected with
  \<^verbatim>\<open>InvalidHandle\<close> exactly when the predicate rejects the empty handle. When the
  predicate accepts it, \<^verbatim>\<open>Create\<close> goes on as for any role: it fails with
  \<^verbatim>\<open>NoCreatePermission\<close> without the create capability; otherwise the uniqueness
  check makes no lookup by handle, so that it can only report \<^verbatim>\<open>RoleNameNotUnique\<close>, and
  then nothing is written; and when the check passes, the repository's create is called
  with the role.
\<close>

theorem Create_rejects_invalid_handle:
  "(\<not> handle_IsValid svc (Handle r) \<longrightarrow> Create svc r w = (Inl ErrInvalidHandle, w))
   \<and> (Handle r = [] \<longrightarrow>
        (fst (Create svc r w) = Inl ErrInvalidHandle \<longleftrightarrow> \<not> handle_IsValid svc []))
   \<and> (Handle r = [] \<and> handle_IsValid svc [] \<and> \<not> CanCreateRole (ac svc) \<longrightarrow>
        Create svc r w = (Inl ErrNoCreatePermissions, w))
   \<and> (Handle r = [] \<and> handle_IsValid svc [] \<and> CanCreateRole (ac svc) \<and>
        fst (UniqueCheck svc r w) = Some e \<longrightarrow>
        e = ErrRoleNameNotUnique \<and>
        Create svc r w =
          (Inl ErrRoleNameNotUnique,
           w\<lparr>calls := calls w @ [TxBegin, Call_FindByName (Name r), TxRollback]\<rparr>))
   \<and> (Handle r = [] \<and> handle_IsValid svc [] \<and> CanCreateRole (ac svc) \<and>
        fst (UniqueCheck svc r w) = None \<and>
        role_Create (role svc) (store w) r = (Inr t, s') \<longrightarrow>
        Create svc r w =
          (Inr t,
           w\<lparr>store := s',
             calls := calls w @ [TxBegin] @
               (if Name r \<noteq> [] then [Call_FindByName (Name r)] else []) @
               [Call_Create r, TxCommit]\<rparr>))
   \<and> (Handle r = [] \<and> handle_IsValid svc [] \<and> CanCreateRole (ac svc) \<and>
        fst (UniqueCheck svc r w) = None \<and>
        role_Create (role svc) (store w) r = (Inl x, s') \<longrightarrow>
        Create svc r w =
          (Inl (RepoErr x),
           w\<lparr>calls := calls w @ [TxBegin] @
               (if Name r \<noteq> [] then [Call_FindByName (Name r)] else []) @
               [Call_Create r, TxRollback]\<rparr>))"
proof -
  have n: "fst (Create svc r w) \<noteq> Inl ErrInvalidHandle" if v: "handle_IsValid svc (Handle r)"
  proof (cases "CanCreateRole (ac svc)")
    case True
    with v Create_tx_error [of svc r w ErrInvalidHandle] show ?thesis by auto
  next
    case False
    with v show ?thesis by (simp add: Create_no_permission)
  qed
  have c: "e = ErrRoleNameNotUnique \<and>
        Create svc r w =
          (Inl ErrRoleNameNotUnique,
           w\<lparr>calls := calls w @ [TxBegin, Call_FindByName (Name r), TxRollback]\<rparr>)"
    if "Handle r = []" "handle_IsValid svc []" "CanCreateRole (ac svc)"
      "fst (UniqueCheck svc r w) = Some e"
  proof -
    have e: "e = ErrRoleNameNotUnique" and nm: "Name r \<noteq> []"
      using that by (auto simp add: UniqueCheck_unfold split: if_splits)
    show ?thesis
      using that e nm Create_conflict [of svc r w e] by (simp add: unique_lookups_def)
  qed
  have p: "Create svc r w =
     (case role_Create (role svc) (store w) r of
        (Inl x, s') \<Rightarrow>
          (Inl (RepoErr x),
           w\<lparr>calls := calls w @ [TxBegin] @
               (if Name r \<noteq> [] then [Call_FindByName (Name r)] else []) @
               [Call_Create r, TxRollback]\<rparr>)
      | (Inr t, s') \<Rightarrow>
          (Inr t,
           w\<lparr>store := s',
             calls := calls w @ [TxBegin] @
               (if Name r \<noteq> [] then [Call_FindByName (Name r)] else []) @
               [Call_Create r, TxCommit]\<rparr>))"
    if "Handle r = []" "handle_IsValid svc []" "CanCreateRole (ac svc)"
      "fst (UniqueCheck svc r w) = None"
  proof -
    have ul: "unique_lookups r = (if Name r \<noteq> [] then [Call_FindByName (Name r)] else [])"
      using that by (simp add: unique_lookups_def)
    show ?thesis
      using that Create_persist [of svc r w]
      by (auto simp add: ul split: prod.splits sum.splits)
  qed
  show ?thesis
    using n c p by (auto simp add: Create_invalid_handle Create_no_permission)
qed

theorem Create_rejects_invalid_handle_witness:
  "\<not> handle_IsValid demo_svc ''x''
   \<and> Create demo_svc \<lparr>ID = 0, Name = ''Guests'', Handle = ''x''\<rparr> world0
       = (Inl ErrInvalidHandle, world0)
   \<and> handle_IsValid demo_svc []
   \<and> fst (Create demo_svc \<lparr>ID = 0, Name = ''Guests'', Handle = []\<rparr> world0)
       \<noteq> Inl ErrInvalidHandle
   \<and> Create (demo_svc\<lparr>ac := allow_all\<lparr>CanCreateRole := False\<rparr>\<rparr>)
         \<lparr>ID = 0, Name = ''Guests'', Handle = []\<rparr> world0
       = (Inl ErrNoCreatePermissions, world0)
   \<and> Create demo_svc \<lparr>ID = 0, Name = ''Admins'', Handle = []\<rparr> world0
       = (Inl ErrRoleNameNotUnique,
          \<lparr>store = [admins], calls = [TxBegin, Call_FindByName ''Admins'', TxRollback]\<rparr>)
   \<and> Create (demo_svc\<lparr>role := faulty_repo\<rparr>) \<lparr>ID = 0, Name = ''Guests'', Handle = []\<rparr> world0
       = (Inl (RepoErr ''write failed''),
          \<lparr>store = [admins],
           calls = [TxBegin, Call_FindByName ''Guests'',
                    Call_Create \<lparr>ID = 0, Name = ''Guests'', Handle = []\<rparr>, TxRollback]\<rparr>)"
  using Create_rejects_invalid_handle [of demo_svc "\<lparr>ID = 0, Name = ''Guests'', Handle = ''x''\<rparr>"
      world0]
    Create_rejects_invalid_handle [of demo_svc "\<lparr>ID = 0, Name = ''Guests'', Handle = []\<rparr>"
      world0]
    Create_rejects_invalid_handle [of "demo_svc\<lparr>ac := allow_all\<lparr>CanCreateRole := False\<rparr>\<rparr>"
      "\<lparr>ID = 0, Name = ''Guests'', Handle = []\<rparr>" world0]
    Create_rejects_invalid_handle [of demo_svc "\<lparr>ID = 0, Name = ''Admins'', Handle = []\<rparr>"
      world0 ErrRoleNameNotUnique]
    Create_rejects_invalid_handle [where svc = "demo_svc\<lparr>role := faulty_repo\<rparr>"
      and r = "\<lparr>ID = 0, Name = ''Guests'', Handle = []\<rparr>" and w = world0
      and x = "''write failed''"
      and s' = "[admins, \<lparr>ID = 0, Name = ''Guests'', Handle = []\<rparr>]"]
  by (simp add: demo_defs faulty_repo_def)

text \<open>
  With a handle predicate that accepts the empty handle, \<^verbatim>\<open>Create\<close> of a role with the
  empty handle does not fail: it skips the lookup by handle and writes the role.
\<close>

theorem Create_empty_handle_is_written:
  "Create demo_svc \<lparr>ID = 0, Name = ''Guests'', Handle = []\<rparr> world0
     = (Inr \<lparr>ID = 0, Name = ''Guests'', Handle = []\<rparr>,
        \<lparr>store = [admins, \<lparr>ID = 0, Name = ''Guests'', Handle = []\<rparr>],
         calls = [TxBegin, Call_FindByName ''Guests'',
                  Call_Create \<lparr>ID = 0, Name = ''Guests'', Handle = []\<rparr>, TxCommit]\<rparr>)"
  by (simp add: Create_def demo_defs)

text \<open>
  C10. \<^verbatim>\<open>Create\<close> neither requires nor resets a zero ID on its argument. When the role
  that already owns the (non-empty) handle of the argument has the ID of the argument,
  and the name meets no conflict, the uniqueness check reports nothing and the
  repository's create is called with the argument as it is; the same holds with the
  parts of name and handle exchanged.
\<close>

theorem Create_same_id_passes_uniqueness:
  "(handle_IsValid svc (Handle md) \<and> CanCreateRole (ac svc) \<and>
      Handle md \<noteq> [] \<and>
      fst (role_FindByHandle (role svc) (store w) (Handle md)) = Some ex \<and> ID ex = ID md \<and>
      \<not> (Name md \<noteq> [] \<and>
         (\<exists>ex'. fst (role_FindByName (role svc) (store w) (Name md)) = Some ex' \<and>
                ID ex' \<noteq> 0 \<and> ID ex' \<noteq> ID md))
    \<longrightarrow> fst (UniqueCheck svc md w) = None \<and>
        fst (Create svc md w) =
          map_sum RepoErr (\<lambda>x. x) (fst (role_Create (role svc) (store w) md)) \<and>
        calls (snd (Create svc md w)) =
          calls w @ [TxBegin] @ unique_lookups md @
          [Call_Create md,
           if isl (fst (role_Create (role svc) (store w) md)) then TxRollback else TxCommit])
   \<and> (handle_IsValid svc (Handle md) \<and> CanCreateRole (ac svc) \<and>
      Name md \<noteq> [] \<and>
      fst (role_FindByName (role svc) (store w) (Name md)) = Some ex \<and> ID ex = ID md \<and>
      \<not> (Handle md \<noteq> [] \<and>
         (\<exists>ex'. fst (role_FindByHandle (role svc) (store w) (Handle md)) = Some ex' \<and>
                ID ex' \<noteq> 0 \<and> ID ex' \<noteq> ID md))
    \<longrightarrow> fst (UniqueCheck svc md w) = None \<and>
        fst (Create svc md w) =
          map_sum RepoErr (\<lambda>x. x) (fst (role_Create (role svc) (store w) md)) \<and>
        calls (snd (Create svc md w)) =
          calls w @ [TxBegin] @ unique_lookups md @
          [Call_Create md,
           if isl (fst (role_Create (role svc) (store w) md)) then TxRollback else TxCommit])"
proof -
  have u: "fst (UniqueCheck svc md w) = None"
    if "\<not> (Handle md \<noteq> [] \<and>
         (\<exists>ex'. fst (role_FindByHandle (role svc) (store w) (Handle md)) = Some ex' \<and>
                ID ex' \<noteq> 0 \<and> ID ex' \<noteq> ID md))"
      and "\<not> (Name md \<noteq> [] \<and>
         (\<exists>ex'. fst (role_FindByName (role svc) (store w) (Name md)) = Some ex' \<and>
                ID ex' \<noteq> 0 \<and> ID ex' \<noteq> ID md))"
    using that
    by (auto simp add: UniqueCheck_unfold taken_iff)
  have p: "fst (Create svc md w) =
          map_sum RepoErr (\<lambda>x. x) (fst (role_Create (role svc) (store w) md)) \<and>
        calls (snd (Create svc md w)) =
          calls w @ [TxBegin] @ unique_lookups md @
          [Call_Create md,
           if isl (fst (role_Create (role svc) (store w) md)) then TxRollback else TxCommit]"
    if "handle_IsValid svc (Handle md)" "CanCreateRole (ac svc)"
      "fst (UniqueCheck svc md w) = None"
    using that Create_persist [of svc md w]
    by (cases "role_Create (role svc) (store w) md") (auto split: sum.splits)
  show ?thesis
    using u p by auto
qed

theorem Create_same_id_passes_uniqueness_witness:
  "role_FindByHandle (role demo_svc) (store world0) ''admins'' = (Some admins, None)
   \<and> ID admins = ID \<lparr>ID = 1, Name = ''Other'', Handle = ''admins''\<rparr>
   \<and> fst (UniqueCheck demo_svc \<lparr>ID = 1, Name = ''Other'', Handle = ''admins''\<rparr> world0) = None
   \<and> fst (Create demo_svc \<lparr>ID = 1, Name = ''Other'', Handle = ''admins''\<rparr> world0)
       = Inr \<lparr>ID = 1, Name = ''Other'', Handle = ''admins''\<rparr>
   \<and> calls (snd (Create demo_svc \<lparr>ID = 1, Name = ''Other'', Handle = ''admins''\<rparr> world0))
       = [TxBegin, Call_FindByHandle ''admins'', Call_FindByName ''Other'',
          Call_Create \<lparr>ID = 1, Name = ''Other'', Handle = ''admins''\<rparr>, TxCommit]
   \<and> role_FindByName (role demo_svc) (store world0) ''Admins'' = (Some admins, None)
   \<and> calls (snd (Create demo_svc \<lparr>ID = 1, Name = ''Admins'', Handle = ''root''\<rparr> world0))
       = [TxBegin, Call_FindByHandle ''root'', Call_FindByName ''Admins'',
          Call_Create \<lparr>ID = 1, Name = ''Admins'', Handle = ''root''\<rparr>, TxCommit]"
  using Create_same_id_passes_uniqueness [of demo_svc
      "\<lparr>ID = 1, Name = ''Other'', Handle = ''admins''\<rparr>" world0 admins]
    Create_same_id_passes_uniqueness [of demo_svc
      "\<lparr>ID = 1, Name = ''Admins'', Handle = ''root''\<rparr>" world0 admins]
  by (simp add: demo_defs unique_lookups_def)

section \<open>Update\<close>

text \<open>
  C6. On a successful \<^verbatim>\<open>Update(mod)\<close> the role handed to the repository for
  persistence is the role fetched by ID inside the transaction with its \<^verbatim>\<open>Name\<close> and
  \<^verbatim>\<open>Handle\<close> replaced by those of \<open>mod\<close>; its ID and every other field are those
  of the fetched role. The repository's update is called once, with that role.
\<close>

theorem Update_replaces_name_and_handle_only:
  "Update svc md w = (Inr t2, w') \<longrightarrow>
     (\<exists>t. role_FindByID (role svc) (store w) (ID md) = Inr t \<and>
          calls w' =
            calls w @ [TxBegin, Call_FindByID (ID md)] @ unique_lookups md @
            [Call_Update (t\<lparr>Name := Name md, Handle := Handle md\<rparr>), TxCommit] \<and>
          role_Update (role svc) (store w) (t\<lparr>Name := Name md, Handle := Handle md\<rparr>)
            = (Inr t2, store w') \<and>
          Name (t\<lparr>Name := Name md, Handle := Handle md\<rparr>) = Name md \<and>
          Handle (t\<lparr>Name := Name md, Handle := Handle md\<rparr>) = Handle md \<and>
          ID (t\<lparr>Name := Name md, Handle := Handle md\<rparr>) = ID t \<and>
          Role.more (t\<lparr>Name := Name md, Handle := Handle md\<rparr>) = Role.more t)"
proof
  assume ok: "Update svc md w = (Inr t2, w')"
  have g: "ID md \<noteq> 0" "handle_IsValid svc (Handle md)" "CanUpdateRole (ac svc) md"
    using ok by (auto simp add: Update_def split: if_splits)
  obtain t where t: "role_FindByID (role svc) (store w) (ID md) = Inr t"
    using ok g Update_fetch_fail [of md svc w]
    by (cases "role_FindByID (role svc) (store w) (ID md)") auto
  have u: "fst (UniqueCheck svc md w) = None"
    using ok g t Update_conflict [of md svc w t]
    by (cases "fst (UniqueCheck svc md w)") auto
  show "\<exists>t. role_FindByID (role svc) (store w) (ID md) = Inr t \<and>
          calls w' =
            calls w @ [TxBegin, Call_FindByID (ID md)] @ unique_lookups md @
            [Call_Update (t\<lparr>Name := Name md, Handle := Handle md\<rparr>), TxCommit] \<and>
          role_Update (role svc) (store w) (t\<lparr>Name := Name md, Handle := Handle md\<rparr>)
            = (Inr t2, store w') \<and>
          Name (t\<lparr>Name := Name md, Handle := Handle md\<rparr>) = Name md \<and>
          Handle (t\<lparr>Name := Name md, Handle := Handle md\<rparr>) = Handle md \<and>
          ID (t\<lparr>Name := Name md, Handle := Handle md\<rparr>) = ID t \<and>
          Role.more (t\<lparr>Name := Name md, Handle := Handle md\<rparr>) = Role.more t"
    using ok Update_persist [OF g t u]
    by (intro exI [of _ t])
       (cases "role_Update (role svc) (store w) (t\<lparr>Name := Name md, Handle := Handle md\<rparr>)",
        auto simp add: t split: sum.splits)
qed

theorem Update_replaces_name_and_handle_only_witness:
  "Update demo_svc \<lparr>ID = 1, Name = ''Owners'', Handle = ''owners''\<rparr> world0
     = (Inr \<lparr>ID = 1, Name = ''Owners'', Handle = ''owners''\<rparr>,
        \<lparr>store = [\<lparr>ID = 1, Name = ''Owners'', Handle = ''owners''\<rparr>],
         calls = [TxBegin, Call_FindByID 1, Call_FindByHandle ''owners'',
                  Call_FindByName ''Owners'',
                  Call_Update \<lparr>ID = 1, Name = ''Owners'', Handle = ''owners''\<rparr>, TxCommit]\<rparr>)
   \<and> (\<exists>t. role_FindByID (role demo_svc) (store world0) 1 = Inr t \<and>
          ID \<lparr>ID = 1, Name = ''Owners'', Handle = ''owners''\<rparr> = ID t)"
  using Update_replaces_name_and_handle_only [of demo_svc
      "\<lparr>ID = 1, Name = ''Owners'', Handle = ''owners''\<rparr>" world0
      "\<lparr>ID = 1, Name = ''Owners'', Handle = ''owners''\<rparr>"
      "\<lparr>store = [\<lparr>ID = 1, Name = ''Owners'', Handle = ''owners''\<rparr>],
         calls = [TxBegin, Call_FindByID 1, Call_FindByHandle ''owners'',
                  Call_FindByName ''Owners'',
                  Call_Update \<lparr>ID = 1, Name = ''Owners'', Handle = ''owners''\<rparr>, TxCommit]\<rparr>"]
  by (simp add: Update_def demo_defs Let_def unique_lookups_def)

section \<open>Find\<close>

text \<open>
  C2. \<^verbatim>\<open>Find(f)\<close> first replaces the read-visibility predicate of the filter by the one
  of the caller. When the visibility flag of the filter asks for deleted or archived
  roles (\<^verbatim>\<open>f.Deleted > 0\<close>) and the caller lacks the capability \<^verbatim>\<open>CanAccess\<close>, it
  fails with \<^verbatim>\<open>NoPermission\<close> without calling the repository, whatever the caller may
  read role by role. Otherwise it calls the repository's find with the adjusted filter
  and returns its answer: the matched set and the filter that the repository echoes.
\<close>

theorem Find_visibility_gate:
  "(0 < Deleted f \<and> \<not> CanAccess (ac svc) \<longrightarrow>
      Find svc f w =
        (([], f\<lparr>IsReadable := FilterReadableRoles (ac svc)\<rparr>, Some ErrNoPermissions), w))
   \<and> (\<not> (0 < Deleted f \<and> \<not> CanAccess (ac svc)) \<longrightarrow>
      Find svc f w =
        ((fst (role_Find (role svc) (store w) (f\<lparr>IsReadable := FilterReadableRoles (ac svc)\<rparr>)),
          fst (snd (role_Find (role svc) (store w)
                 (f\<lparr>IsReadable := FilterReadableRoles (ac svc)\<rparr>))),
          map_option RepoErr
            (snd (snd (role_Find (role svc) (store w)
                 (f\<lparr>IsReadable := FilterReadableRoles (ac svc)\<rparr>))))),
         w\<lparr>calls := calls w @ [Call_Find (f\<lparr>IsReadable := FilterReadableRoles (ac svc)\<rparr>)]\<rparr>))"
  by (auto simp add: Find_def Let_def repo_read_def invoke_def split: prod.splits)

theorem Find_visibility_gate_witness:
  "(0::nat) < Deleted \<lparr>Query = [], Deleted = 1, IsReadable = False\<rparr>
   \<and> \<not> CanAccess (ac (demo_svc\<lparr>ac := allow_all\<lparr>CanAccess := False\<rparr>\<rparr>))
   \<and> CanReadRole (ac (demo_svc\<lparr>ac := allow_all\<lparr>CanAccess := False\<rparr>\<rparr>)) admins
   \<and> Find (demo_svc\<lparr>ac := allow_all\<lparr>CanAccess := False\<rparr>\<rparr>)
        \<lparr>Query = [], Deleted = 1, IsReadable = False\<rparr> world0
       = (([], \<lparr>Query = [], Deleted = 1, IsReadable = True\<rparr>, Some ErrNoPermissions), world0)
   \<and> Find demo_svc \<lparr>Query = [], Deleted = 1, IsReadable = False\<rparr> world0
       = (([admins], \<lparr>Query = [], Deleted = 1, IsReadable = True\<rparr>, None),
          \<lparr>store = [admins],
           calls = [Call_Find \<lparr>Query = [], Deleted = 1, IsReadable = True\<rparr>]\<rparr>)
   \<and> Find (demo_svc\<lparr>ac := allow_all\<lparr>CanAccess := False\<rparr>\<rparr>)
        \<lparr>Query = [], Deleted = 0, IsReadable = False\<rparr> world0
       = (([admins], \<lparr>Query = [], Deleted = 0, IsReadable = True\<rparr>, None),
          \<lparr>store = [admins],
           calls = [Call_Find \<lparr>Query = [], Deleted = 0, IsReadable = True\<rparr>]\<rparr>)"
  using Find_visibility_gate [of "\<lparr>Query = [], Deleted = 1, IsReadable = False\<rparr>"
      "demo_svc\<lparr>ac := allow_all\<lparr>CanAccess := False\<rparr>\<rparr>" world0]
    Find_visibility_gate [of "\<lparr>Query = [], Deleted = 1, IsReadable = False\<rparr>" demo_svc world0]
    Find_visibility_gate [of "\<lparr>Query = [], Deleted = 0, IsReadable = False\<rparr>"
      "demo_svc\<lparr>ac := allow_all\<lparr>CanAccess := False\<rparr>\<rparr>" world0]
  by (simp add: demo_defs)

section \<open>State transitions\<close>

lemma findByID_zero: "findByID svc 0 w = (Inl ErrInvalidID, w)"
  by (simp add: findByID_def)

lemma findByID_fetch_fail:
  "roleID \<noteq> 0 \<Longrightarrow> role_FindByID (role svc) (store w) roleID = Inl x \<Longrightarrow>
   findByID svc roleID w = (Inl (RepoErr x), w\<lparr>calls := calls w @ [Call_FindByID roleID]\<rparr>)"
  by (simp add: findByID_def repo_read_def invoke_def)

lemma findByID_unreadable:
  "roleID \<noteq> 0 \<Longrightarrow> role_FindByID (role svc) (store w) roleID = Inr r \<Longrightarrow>
   \<not> CanReadRole (ac svc) r \<Longrightarrow>
   findByID svc roleID w = (Inl ErrNoPermissions, w\<lparr>calls := calls w @ [Call_FindByID roleID]\<rparr>)"
  by (simp add: findByID_def repo_read_def invoke_def)

lemma findByID_ok:
  "roleID \<noteq> 0 \<Longrightarrow> role_FindByID (role svc) (store w) roleID = Inr r \<Longrightarrow>
   CanReadRole (ac svc) r \<Longrightarrow>
   findByID svc roleID w = (Inr r, w\<lparr>calls := calls w @ [Call_FindByID roleID]\<rparr>)"
  by (simp add: findByID_def repo_read_def invoke_def)

lemma transition_gate:
  "fst (findByID svc roleID w) = Inl e \<Longrightarrow>
   transition_op svc t roleID w = (Some e, snd (findByID svc roleID w))"
  by (cases t; cases "findByID svc roleID w")
     (simp_all add: Delete_def Undelete_def Archive_def Unarchive_def Merge_def Move_def)

lemma transition_denied:
  "roleID \<noteq> 0 \<Longrightarrow> role_FindByID (role svc) (store w) roleID = Inr r \<Longrightarrow>
   CanReadRole (ac svc) r \<Longrightarrow> target_ok t \<Longrightarrow> \<not> capability (ac svc) t r \<Longrightarrow>
   transition_op svc t roleID w =
     (Some ErrNoPermissions, w\<lparr>calls := calls w @ [Call_FindByID roleID]\<rparr>)"
  by (cases t)
     (simp_all add: Delete_def Undelete_def Archive_def Unarchive_def Merge_def Move_def
        findByID_ok)

lemma transition_issued:
  "roleID \<noteq> 0 \<Longrightarrow> role_FindByID (role svc) (store w) roleID = Inr r \<Longrightarrow>
   CanReadRole (ac svc) r \<Longrightarrow> target_ok t \<Longrightarrow> capability (ac svc) t r \<Longrightarrow>
   transition_op svc t roleID w =
     (map_option RepoErr (fst (repo_transition (role svc) t (store w) roleID)),
      w\<lparr>store := snd (repo_transition (role svc) t (store w) roleID),
        calls := calls w @ [Call_FindByID roleID, transition_call t roleID]\<rparr>)"
  by (cases t)
     (simp_all add: Delete_def Undelete_def Archive_def Unarchive_def Merge_def Move_def
        findByID_ok repo_write_def invoke_def)

text \<open>
  C7. Every state transition first passes the gate of \<^verbatim>\<open>FindByID\<close>: an error of
  \<^verbatim>\<open>FindByID\<close> (\<^verbatim>\<open>InvalidID\<close> for the ID 0, the error of the repository's lookup,
  \<^verbatim>\<open>NoPermission\<close> for an unreadable role) is the error of the transition, and nothing
  else is called. Then the capability (delete for \<^verbatim>\<open>Delete\<close> and \<^verbatim>\<open>Undelete\<close>, update
  for \<^verbatim>\<open>Archive\<close>, \<^verbatim>\<open>Unarchive\<close>, \<^verbatim>\<open>Merge\<close> and \<^verbatim>\<open>Move\<close>) is evaluated on the role
  that the repository returned; without it the transition fails with \<^verbatim>\<open>NoPermission\<close>
  and only the lookup has been called. Only then is the repository's transition issued,
  and its answer returned. (\<^verbatim>\<open>Merge\<close> and \<^verbatim>\<open>Move\<close> test their target between the
  gate and the capability; the two last parts are stated for a target that is not zero.)
\<close>

theorem transitions_fetch_authorize_then_transition:
  "(fst (FindByID svc roleID w) = Inl e \<longrightarrow>
      transition_op svc t roleID w = (Some e, snd (FindByID svc roleID w)))
   \<and> FindByID svc 0 w = (Inl ErrInvalidID, w)
   \<and> (roleID \<noteq> 0 \<and> role_FindByID (role svc) (store w) roleID = Inl x \<longrightarrow>
      FindByID svc roleID w =
        (Inl (RepoErr x), w\<lparr>calls := calls w @ [Call_FindByID roleID]\<rparr>))
   \<and> (roleID \<noteq> 0 \<and> role_FindByID (role svc) (store w) roleID = Inr r \<and>
      \<not> CanReadRole (ac svc) r \<longrightarrow>
      FindByID svc roleID w =
        (Inl ErrNoPermissions, w\<lparr>calls := calls w @ [Call_FindByID roleID]\<rparr>))
   \<and> (roleID \<noteq> 0 \<and> role_FindByID (role svc) (store w) roleID = Inr r \<and>
      CanReadRole (ac svc) r \<and> target_ok t \<and> \<not> capability (ac svc) t r \<longrightarrow>
      transition_op svc t roleID w =
        (Some ErrNoPermissions, w\<lparr>calls := calls w @ [Call_FindByID roleID]\<rparr>))
   \<and> (roleID \<noteq> 0 \<and> role_FindByID (role svc) (store w) roleID = Inr r \<and>
      CanReadRole (ac svc) r \<and> target_ok t \<and> capability (ac svc) t r \<longrightarrow>
      transition_op svc t roleID w =
        (map_option RepoErr (fst (repo_transition (role svc) t (store w) roleID)),
         w\<lparr>store := snd (repo_transition (role svc) t (store w) roleID),
           calls := calls w @ [Call_FindByID roleID, transition_call t roleID]\<rparr>))"
  using transition_gate [of svc roleID w e t] transition_denied [of roleID svc w r t]
    transition_issued [of roleID svc w r t]
  by (simp add: FindByID_def findByID_zero findByID_fetch_fail findByID_unreadable)

theorem transitions_fetch_authorize_then_transition_witness:
  "role_FindByID (role demo_svc) (store world0) 1 = Inr admins
   \<and> transition_op demo_svc T_Delete 1 world0
       = (None, \<lparr>store = [], calls = [Call_FindByID 1, Call_DeleteByID 1]\<rparr>)
   \<and> transition_op (demo_svc\<lparr>ac := allow_all\<lparr>CanDeleteRole := (\<lambda>r. False)\<rparr>\<rparr>) T_Delete 1 world0
       = (Some ErrNoPermissions, \<lparr>store = [admins], calls = [Call_FindByID 1]\<rparr>)
   \<and> transition_op (demo_svc\<lparr>ac := allow_all\<lparr>CanDeleteRole := (\<lambda>r. False)\<rparr>\<rparr>) T_Archive 1 world0
       = (None, \<lparr>store = [admins], calls = [Call_FindByID 1, Call_ArchiveByID 1]\<rparr>)
   \<and> transition_op (demo_svc\<lparr>ac := allow_all\<lparr>CanUpdateRole := (\<lambda>r. False)\<rparr>\<rparr>) (T_Merge 2) 1
         world0
       = (Some ErrNoPermissions, \<lparr>store = [admins], calls = [Call_FindByID 1]\<rparr>)
   \<and> transition_op demo_svc T_Undelete 2 world0
       = (Some (RepoErr ''role not found''), \<lparr>store = [admins], calls = [Call_FindByID 2]\<rparr>)
   \<and> transition_op (demo_svc\<lparr>ac := allow_all\<lparr>CanReadRole := (\<lambda>r. False)\<rparr>\<rparr>) T_Unarchive 1 world0
       = (Some ErrNoPermissions, \<lparr>store = [admins], calls = [Call_FindByID 1]\<rparr>)"
  using transitions_fetch_authorize_then_transition [of demo_svc 1 world0 _ T_Delete _ admins]
    transitions_fetch_authorize_then_transition
      [of "demo_svc\<lparr>ac := allow_all\<lparr>CanDeleteRole := (\<lambda>r. False)\<rparr>\<rparr>" 1 world0 _ T_Delete _ admins]
    transitions_fetch_authorize_then_transition
      [of "demo_svc\<lparr>ac := allow_all\<lparr>CanDeleteRole := (\<lambda>r. False)\<rparr>\<rparr>" 1 world0 _ T_Archive _ admins]
    transitions_fetch_authorize_then_transition
      [of "demo_svc\<lparr>ac := allow_all\<lparr>CanUpdateRole := (\<lambda>r. False)\<rparr>\<rparr>" 1 world0 _ "T_Merge 2" _
        admins]
    transitions_fetch_authorize_then_transition
      [of demo_svc 2 world0 "RepoErr ''role not found''" T_Undelete "''role not found''"]
    transitions_fetch_authorize_then_transition
      [of "demo_svc\<lparr>ac := allow_all\<lparr>CanReadRole := (\<lambda>r. False)\<rparr>\<rparr>" 1 world0 ErrNoPermissions
        T_Unarchive _ admins]
  by (simp add: FindByID_def demo_defs)


section \<open>Zero identifiers\<close>

lemma second_id_zero:
  "roleID \<noteq> 0 \<Longrightarrow> role_FindByID (role svc) (store w) roleID = Inr r \<Longrightarrow>
   CanReadRole (ac svc) r \<Longrightarrow>
   Merge svc roleID 0 w = (Some ErrInvalidID, w\<lparr>calls := calls w @ [Call_FindByID roleID]\<rparr>) \<and>
   Move svc roleID 0 w = (Some ErrInvalidID, w\<lparr>calls := calls w @ [Call_FindByID roleID]\<rparr>) \<and>
   MemberAdd svc roleID 0 w =
     (Some ErrInvalidID, w\<lparr>calls := calls w @ [Call_FindByID roleID]\<rparr>) \<and>
   MemberRemove svc roleID 0 w =
     (Some ErrInvalidID, w\<lparr>calls := calls w @ [Call_FindByID roleID]\<rparr>)"
  by (simp add: Merge_def Move_def MemberAdd_def MemberRemove_def findByID_ok)

lemma second_id_gate:
  "fst (findByID svc roleID w) = Inl e \<Longrightarrow>
   Merge svc roleID target w = (Some e, snd (findByID svc roleID w)) \<and>
   Move svc roleID target w = (Some e, snd (findByID svc roleID w)) \<and>
   MemberAdd svc roleID userID w = (Some e, snd (findByID svc roleID w)) \<and>
   MemberRemove svc roleID userID w = (Some e, snd (findByID svc roleID w))"
  by (cases "findByID svc roleID w")
     (simp add: Merge_def Move_def MemberAdd_def MemberRemove_def)

lemma second_id_zero_rejected:
  "fst (Merge svc roleID 0 w) \<noteq> None \<and> fst (Move svc roleID 0 w) \<noteq> None \<and>
   fst (MemberAdd svc roleID 0 w) \<noteq> None \<and> fst (MemberRemove svc roleID 0 w) \<noteq> None"
  by (cases "findByID svc roleID w")
     (auto simp add: Merge_def Move_def MemberAdd_def MemberRemove_def split: sum.splits)

text \<open>
  C8, as the code has it. A zero role identifier is rejected with \<^verbatim>\<open>InvalidID\<close>, before
  any call, by every operation that fetches its role: \<^verbatim>\<open>FindByID\<close>, \<^verbatim>\<open>Update\<close> (the ID
  of the payload), \<^verbatim>\<open>Delete\<close>, \<^verbatim>\<open>Undelete\<close>, \<^verbatim>\<open>Archive\<close>, \<^verbatim>\<open>Unarchive\<close>, \<^verbatim>\<open>Merge\<close>,
  \<^verbatim>\<open>Move\<close>, \<^verbatim>\<open>MemberList\<close>, \<^verbatim>\<open>MemberAdd\<close> and \<^verbatim>\<open>MemberRemove\<close>. A zero second
  identifier (the target of \<^verbatim>\<open>Merge\<close> and \<^verbatim>\<open>Move\<close>, the user of \<^verbatim>\<open>MemberAdd\<close> and
  \<^verbatim>\<open>MemberRemove\<close>) is always rejected: with \<^verbatim>\<open>InvalidID\<close>, after the lookup of the
  role, when the role exists and is readable, and otherwise with the error of the fetch,
  whatever \<^verbatim>\<open>FindByID\<close> reports for the role identifier (the error of the repository's
  lookup for a role that it does not return, \<^verbatim>\<open>NoPermission\<close> for an unreadable role).
  \<^verbatim>\<open>Membership(userID)\<close> validates nothing: it forwards every user ID, zero included,
  to the repository and returns its answer, which is never \<^verbatim>\<open>InvalidID\<close>.
\<close>

theorem zero_identifier_rejected:
  "FindByID svc 0 w = (Inl ErrInvalidID, w)
   \<and> (ID md = 0 \<longrightarrow> Update svc md w = (Inl ErrInvalidID, w))
   \<and> Delete svc 0 w = (Some ErrInvalidID, w)
   \<and> Undelete svc 0 w = (Some ErrInvalidID, w)
   \<and> Archive svc 0 w = (Some ErrInvalidID, w)
   \<and> Unarchive svc 0 w = (Some ErrInvalidID, w)
   \<and> Merge svc 0 target w = (Some ErrInvalidID, w)
   \<and> Move svc 0 target w = (Some ErrInvalidID, w)
   \<and> MemberList svc 0 w = (Inl ErrInvalidID, w)
   \<and> MemberAdd svc 0 userID w = (Some ErrInvalidID, w)
   \<and> MemberRemove svc 0 userID w = (Some ErrInvalidID, w)
   \<and> (roleID \<noteq> 0 \<and> role_FindByID (role svc) (store w) roleID = Inr r \<and>
      CanReadRole (ac svc) r \<longrightarrow>
      Merge svc roleID 0 w =
        (Some ErrInvalidID, w\<lparr>calls := calls w @ [Call_FindByID roleID]\<rparr>) \<and>
      Move svc roleID 0 w =
        (Some ErrInvalidID, w\<lparr>calls := calls w @ [Call_FindByID roleID]\<rparr>) \<and>
      MemberAdd svc roleID 0 w =
        (Some ErrInvalidID, w\<lparr>calls := calls w @ [Call_FindByID roleID]\<rparr>) \<and>
      MemberRemove svc roleID 0 w =
        (Some ErrInvalidID, w\<lparr>calls := calls w @ [Call_FindByID roleID]\<rparr>))
   \<and> (fst (FindByID svc roleID w) = Inl e \<longrightarrow>
      Merge svc roleID 0 w = (Some e, snd (FindByID svc roleID w)) \<and>
      Move svc roleID 0 w = (Some e, snd (FindByID svc roleID w)) \<and>
      MemberAdd svc roleID 0 w = (Some e, snd (FindByID svc roleID w)) \<and>
      MemberRemove svc roleID 0 w = (Some e, snd (FindByID svc roleID w)))
   \<and> (roleID \<noteq> 0 \<and> role_FindByID (role svc) (store w) roleID = Inl x \<longrightarrow>
      Merge svc roleID 0 w =
        (Some (RepoErr x), w\<lparr>calls := calls w @ [Call_FindByID roleID]\<rparr>) \<and>
      Move svc roleID 0 w =
        (Some (RepoErr x), w\<lparr>calls := calls w @ [Call_FindByID roleID]\<rparr>) \<and>
      MemberAdd svc roleID 0 w =
        (Some (RepoErr x), w\<lparr>calls := calls w @ [Call_FindByID roleID]\<rparr>) \<and>
      MemberRemove svc roleID 0 w =
        (Some (RepoErr x), w\<lparr>calls := calls w @ [Call_FindByID roleID]\<rparr>))
   \<and> (roleID \<noteq> 0 \<and> role_FindByID (role svc) (store w) roleID = Inr r \<and>
      \<not> CanReadRole (ac svc) r \<longrightarrow>
      Merge svc roleID 0 w =
        (Some ErrNoPermissions, w\<lparr>calls := calls w @ [Call_FindByID roleID]\<rparr>) \<and>
      Move svc roleID 0 w =
        (Some ErrNoPermissions, w\<lparr>calls := calls w @ [Call_FindByID roleID]\<rparr>) \<and>
      MemberAdd svc roleID 0 w =
        (Some ErrNoPermissions, w\<lparr>calls := calls w @ [Call_FindByID roleID]\<rparr>) \<and>
      MemberRemove svc roleID 0 w =
        (Some ErrNoPermissions, w\<lparr>calls := calls w @ [Call_FindByID roleID]\<rparr>))
   \<and> fst (Merge svc roleID 0 w) \<noteq> None \<and> fst (Move svc roleID 0 w) \<noteq> None
   \<and> fst (MemberAdd svc roleID 0 w) \<noteq> None \<and> fst (MemberRemove svc roleID 0 w) \<noteq> None
   \<and> Membership svc userID w =
       (map_sum RepoErr (\<lambda>x. x) (role_MembershipsFindByUserID (role svc) (store w) userID),
        w\<lparr>calls := calls w @ [Call_MembershipsFindByUserID userID]\<rparr>)
   \<and> fst (Membership svc userID w) \<noteq> Inl ErrInvalidID"
proof -
  have z: "Merge svc 0 target w = (Some ErrInvalidID, w)" "Move svc 0 target w = (Some ErrInvalidID, w)"
    "MemberAdd svc 0 userID w = (Some ErrInvalidID, w)"
    "MemberRemove svc 0 userID w = (Some ErrInvalidID, w)"
    "Delete svc 0 w = (Some ErrInvalidID, w)" "Undelete svc 0 w = (Some ErrInvalidID, w)"
    "Archive svc 0 w = (Some ErrInvalidID, w)" "Unarchive svc 0 w = (Some ErrInvalidID, w)"
    "MemberList svc 0 w = (Inl ErrInvalidID, w)" "FindByID svc 0 w = (Inl ErrInvalidID, w)"
    by (simp_all add: FindByID_def Delete_def Undelete_def Archive_def Unarchive_def
        Merge_def Move_def MemberList_def MemberAdd_def MemberRemove_def findByID_zero)
  have f: "Merge svc roleID 0 w =
        (Some (RepoErr x), w\<lparr>calls := calls w @ [Call_FindByID roleID]\<rparr>) \<and>
      Move svc roleID 0 w =
        (Some (RepoErr x), w\<lparr>calls := calls w @ [Call_FindByID roleID]\<rparr>) \<and>
      MemberAdd svc roleID 0 w =
        (Some (RepoErr x), w\<lparr>calls := calls w @ [Call_FindByID roleID]\<rparr>) \<and>
      MemberRemove svc roleID 0 w =
        (Some (RepoErr x), w\<lparr>calls := calls w @ [Call_FindByID roleID]\<rparr>)"
    if "roleID \<noteq> 0" "role_FindByID (role svc) (store w) roleID = Inl x"
    using that second_id_gate [of svc roleID w "RepoErr x" 0 0]
    by (simp add: findByID_fetch_fail)
  have u: "Merge svc roleID 0 w =
        (Some ErrNoPermissions, w\<lparr>calls := calls w @ [Call_FindByID roleID]\<rparr>) \<and>
      Move svc roleID 0 w =
        (Some ErrNoPermissions, w\<lparr>calls := calls w @ [Call_FindByID roleID]\<rparr>) \<and>
      MemberAdd svc roleID 0 w =
        (Some ErrNoPermissions, w\<lparr>calls := calls w @ [Call_FindByID roleID]\<rparr>) \<and>
      MemberRemove svc roleID 0 w =
        (Some ErrNoPermissions, w\<lparr>calls := calls w @ [Call_FindByID roleID]\<rparr>)"
    if "roleID \<noteq> 0" "role_FindByID (role svc) (store w) roleID = Inr r"
      "\<not> CanReadRole (ac svc) r"
    using that second_id_gate [of svc roleID w ErrNoPermissions 0 0]
    by (simp add: findByID_unreadable)
  have m: "Membership svc userID w =
       (map_sum RepoErr (\<lambda>x. x) (role_MembershipsFindByUserID (role svc) (store w) userID),
        w\<lparr>calls := calls w @ [Call_MembershipsFindByUserID userID]\<rparr>)"
    by (simp add: Membership_def repo_read_def invoke_def)
  have m': "fst (Membership svc userID w) \<noteq> Inl ErrInvalidID"
    by (cases "role_MembershipsFindByUserID (role svc) (store w) userID") (simp_all add: m)
  have upd: "ID md = 0 \<longrightarrow> Update svc md w = (Inl ErrInvalidID, w)"
    by (simp add: Update_def)
  show ?thesis
    using z f u m m' upd second_id_zero [of roleID svc w r]
      second_id_zero_rejected [of svc roleID w]
      second_id_gate [of svc roleID w e 0 0]
    by (simp add: FindByID_def)
qed

theorem zero_identifier_rejected_witness:
  "ID \<lparr>ID = 0, Name = ''Guests'', Handle = ''guests''\<rparr> = 0
   \<and> Update demo_svc \<lparr>ID = 0, Name = ''Guests'', Handle = ''guests''\<rparr> world0
       = (Inl ErrInvalidID, world0)
   \<and> role_FindByID (role demo_svc) (store world0) 1 = Inr admins
   \<and> CanReadRole (ac demo_svc) admins
   \<and> MemberRemove demo_svc 1 0 world0
       = (Some ErrInvalidID, \<lparr>store = [admins], calls = [Call_FindByID 1]\<rparr>)
   \<and> role_FindByID (role demo_svc) (store world0) 2 = Inl ''role not found''
   \<and> Move demo_svc 2 0 world0
       = (Some (RepoErr ''role not found''), \<lparr>store = [admins], calls = [Call_FindByID 2]\<rparr>)
   \<and> \<not> CanReadRole (ac (demo_svc\<lparr>ac := allow_all\<lparr>CanReadRole := (\<lambda>r. False)\<rparr>\<rparr>)) admins
   \<and> MemberAdd (demo_svc\<lparr>ac := allow_all\<lparr>CanReadRole := (\<lambda>r. False)\<rparr>\<rparr>) 1 0 world0
       = (Some ErrNoPermissions, \<lparr>store = [admins], calls = [Call_FindByID 1]\<rparr>)"
  using zero_identifier_rejected [where svc = demo_svc and w = world0
      and md = "\<lparr>ID = 0, Name = ''Guests'', Handle = ''guests''\<rparr>" and roleID = 1 and r = admins]
    zero_identifier_rejected [where svc = demo_svc and w = world0 and roleID = 2
      and x = "''role not found''"]
    zero_identifier_rejected [where svc = "demo_svc\<lparr>ac := allow_all\<lparr>CanReadRole := (\<lambda>r. False)\<rparr>\<rparr>"
      and w = world0 and roleID = 1 and r = admins]
  by (simp add: demo_defs)

text \<open>
  \<^verbatim>\<open>Membership(0)\<close> on the example instance is forwarded to the repository and succeeds.
\<close>

theorem Membership_zero_is_forwarded:
  "Membership demo_svc 0 world0
     = (Inr [], \<lparr>store = [admins], calls = [Call_MembershipsFindByUserID 0]\<rparr>)"
  by (simp add: Membership_def demo_defs)

section \<open>Errors and the store\<close>

lemma Transaction_error_store:
  "fst (Transaction fn w) = Inl e \<Longrightarrow> store (snd (Transaction fn w)) = store w"
  by (cases "fn (invoke TxBegin w)")
     (auto simp add: Transaction_def invoke_def split: sum.splits)

lemma Create_error_store:
  "fst (Create svc md w) = Inl e \<Longrightarrow> store (snd (Create svc md w)) = store w"
  by (cases "handle_IsValid svc (Handle md)"; cases "CanCreateRole (ac svc)")
     (simp_all add: Create_def Transaction_error_store)

lemma Update_error_store:
  "fst (Update svc md w) = Inl e \<Longrightarrow> store (snd (Update svc md w)) = store w"
  by (cases "ID md = 0"; cases "handle_IsValid svc (Handle md)";
      cases "CanUpdateRole (ac svc) md")
     (simp_all add: Update_def Transaction_error_store)

lemma gated_store:
  "(case findByID svc i w of
      (Inl err, w1) \<Rightarrow> (Some err, w1)
    | (Inr r, w1) \<Rightarrow>
        if pre then (Some ErrInvalidID, w1)
        else if \<not> cap r then (Some deny, w1)
        else case repo_write c f w1 of (err, w2) \<Rightarrow> (map_option RepoErr err, w2)) = (Some e, w')
   \<Longrightarrow> store w' = store w \<or>
       (\<exists>x. fst (f (store w)) = Some x \<and> e = RepoErr x \<and> store w' = snd (f (store w)))"
  using findByID_cases [of svc i w]
  by (auto simp add: repo_write_def invoke_def split: if_splits)

lemma gated_store0:
  "(case findByID svc i w of
      (Inl err, w1) \<Rightarrow> (Some err, w1)
    | (Inr r, w1) \<Rightarrow>
        if \<not> cap r then (Some deny, w1)
        else case repo_write c f w1 of (err, w2) \<Rightarrow> (map_option RepoErr err, w2)) = (Some e, w')
   \<Longrightarrow> store w' = store w \<or>
       (\<exists>x. fst (f (store w)) = Some x \<and> e = RepoErr x \<and> store w' = snd (f (store w)))"
  using findByID_cases [of svc i w]
  by (auto simp add: repo_write_def invoke_def split: if_splits)

lemma perform_error_store:
  "perform svc op w = (Some e, w') \<Longrightarrow>
   store w' = store w \<or>
   (\<exists>x s'. single_call (role svc) op (store w) = Some (Some x, s') \<and>
           e = RepoErr x \<and> store w' = s')"
proof (cases op)
  case (Op_FindByID i)
  then show "perform svc op w = (Some e, w') \<Longrightarrow> ?thesis"
    using findByID_cases [of svc i w]
    by (auto simp add: FindByID_def err_of_def invoke_def)
next
  case (Op_FindByName n)
  then show "perform svc op w = (Some e, w') \<Longrightarrow> ?thesis"
    by (auto simp add: FindByName_def repo_read_def invoke_def split: prod.splits)
next
  case (Op_FindByHandle h)
  then show "perform svc op w = (Some e, w') \<Longrightarrow> ?thesis"
    by (auto simp add: FindByHandle_def repo_read_def invoke_def split: prod.splits)
next
  case (Op_Find f)
  then show "perform svc op w = (Some e, w') \<Longrightarrow> ?thesis"
    by (auto simp add: Find_def Let_def repo_read_def invoke_def split: if_splits prod.splits)
next
  case (Op_Create md)
  then show "perform svc op w = (Some e, w') \<Longrightarrow> ?thesis"
    using Create_error_store [of svc md w e]
    by (auto simp add: err_of_def split: sum.splits)
next
  case (Op_Update md)
  then show "perform svc op w = (Some e, w') \<Longrightarrow> ?thesis"
    using Update_error_store [of svc md w e]
    by (auto simp add: err_of_def split: sum.splits)
next
  case (Op_Merge i t)
  then show "perform svc op w = (Some e, w') \<Longrightarrow> ?thesis"
    by (simp add: Merge_def) (drule gated_store, auto simp add: prod_eq_iff)
next
  case (Op_Move i t)
  then show "perform svc op w = (Some e, w') \<Longrightarrow> ?thesis"
    by (simp add: Move_def) (drule gated_store, auto simp add: prod_eq_iff)
next
  case (Op_Archive i)
  then show "perform svc op w = (Some e, w') \<Longrightarrow> ?thesis"
    by (simp add: Archive_def) (drule gated_store0, auto simp add: prod_eq_iff)
next
  case (Op_Unarchive i)
  then show "perform svc op w = (Some e, w') \<Longrightarrow> ?thesis"
    by (simp add: Unarchive_def) (drule gated_store0, auto simp add: prod_eq_iff)
next
  case (Op_Delete i)
  then show "perform svc op w = (Some e, w') \<Longrightarrow> ?thesis"
    by (simp add: Delete_def) (drule gated_store0, auto simp add: prod_eq_iff)
next
  case (Op_Undelete i)
  then show "perform svc op w = (Some e, w') \<Longrightarrow> ?thesis"
    by (simp add: Undelete_def) (drule gated_store0, auto simp add: prod_eq_iff)
next
  case (Op_Membership u)
  then show "perform svc op w = (Some e, w') \<Longrightarrow> ?thesis"
    by (auto simp add: Membership_def repo_read_def invoke_def)
next
  case (Op_MemberList i)
  then show "perform svc op w = (Some e, w') \<Longrightarrow> ?thesis"
    using findByID_cases [of svc i w]
    by (auto simp add: MemberList_def repo_read_def invoke_def split: sum.splits)
next
  case (Op_MemberAdd i u)
  then show "perform svc op w = (Some e, w') \<Longrightarrow> ?thesis"
    by (simp add: MemberAdd_def) (drule gated_store, auto simp add: prod_eq_iff)
next
  case (Op_MemberRemove i u)
  then show "perform svc op w = (Some e, w') \<Longrightarrow> ?thesis"
    by (simp add: MemberRemove_def) (drule gated_store, auto simp add: prod_eq_iff)
qed

text \<open>
  C5, as the code has it. When \<^verbatim>\<open>Create\<close> or \<^verbatim>\<open>Update\<close> reports an error, the store is
  the one from before the call: a uniqueness conflict, a failed fetch and a failed
  write all end the transaction with a rollback, also when the repository's write has
  changed the store before failing, and the error reported is the one that ended the
  transaction (the error of the uniqueness check, or the error of the repository). When
  any other operation reports an error, the store is unchanged unless the error is the
  one that the repository returned from the single write of that operation
  (\<^verbatim>\<open>DeleteByID\<close>, \<^verbatim>\<open>UndeleteByID\<close>, \<^verbatim>\<open>ArchiveByID\<close>, \<^verbatim>\<open>UnarchiveByID\<close>, \<^verbatim>\<open>MergeByID\<close>,
  \<^verbatim>\<open>MoveByID\<close>, \<^verbatim>\<open>MemberAddByID\<close>, \<^verbatim>\<open>MemberRemoveByID\<close>), which runs outside any
  transaction: then the store is the one that this call left, and the service does not
  restore it. Every error that the service raises itself leaves the store unchanged.
\<close>

theorem errors_leave_store_unchanged:
  "(fst (Create svc md w) = Inl e1 \<longrightarrow> store (snd (Create svc md w)) = store w)
   \<and> (fst (Update svc md w) = Inl e2 \<longrightarrow> store (snd (Update svc md w)) = store w)
   \<and> (perform svc op w = (Some e, w') \<longrightarrow>
        store w' = store w \<or>
        (\<exists>x s'. single_call (role svc) op (store w) = Some (Some x, s') \<and>
                e = RepoErr x \<and> store w' = s'))
   \<and> (perform svc op w = (Some e, w') \<and> (\<forall>x. e \<noteq> RepoErr x) \<longrightarrow> store w' = store w)
   \<and> (handle_IsValid svc (Handle md) \<and> CanCreateRole (ac svc) \<and>
      fst (UniqueCheck svc md w) = Some e3 \<longrightarrow> fst (Create svc md w) = Inl e3)
   \<and> (handle_IsValid svc (Handle md) \<and> CanCreateRole (ac svc) \<and>
      fst (UniqueCheck svc md w) = None \<and>
      fst (role_Create (role svc) (store w) md) = Inl x \<longrightarrow>
      fst (Create svc md w) = Inl (RepoErr x))
   \<and> (ID md \<noteq> 0 \<and> handle_IsValid svc (Handle md) \<and> CanUpdateRole (ac svc) md \<and>
      role_FindByID (role svc) (store w) (ID md) = Inl x \<longrightarrow>
      fst (Update svc md w) = Inl (RepoErr x))
   \<and> (ID md \<noteq> 0 \<and> handle_IsValid svc (Handle md) \<and> CanUpdateRole (ac svc) md \<and>
      role_FindByID (role svc) (store w) (ID md) = Inr t \<and>
      fst (UniqueCheck svc md w) = Some e3 \<longrightarrow> fst (Update svc md w) = Inl e3)
   \<and> (ID md \<noteq> 0 \<and> handle_IsValid svc (Handle md) \<and> CanUpdateRole (ac svc) md \<and>
      role_FindByID (role svc) (store w) (ID md) = Inr t \<and>
      fst (UniqueCheck svc md w) = None \<and>
      fst (role_Update (role svc) (store w) (t\<lparr>Name := Name md, Handle := Handle md\<rparr>)) = Inl x
      \<longrightarrow> fst (Update svc md w) = Inl (RepoErr x))"
proof -
  have c: "fst (Create svc md w) = Inl (RepoErr x)"
    if "handle_IsValid svc (Handle md)" "CanCreateRole (ac svc)"
      "fst (UniqueCheck svc md w) = None" "fst (role_Create (role svc) (store w) md) = Inl x"
    using that Create_persist [of svc md w]
    by (cases "role_Create (role svc) (store w) md") simp
  have u: "fst (Update svc md w) = Inl (RepoErr x)"
    if "ID md \<noteq> 0" "handle_IsValid svc (Handle md)" "CanUpdateRole (ac svc) md"
      "role_FindByID (role svc) (store w) (ID md) = Inr t"
      "fst (UniqueCheck svc md w) = None"
      "fst (role_Update (role svc) (store w) (t\<lparr>Name := Name md, Handle := Handle md\<rparr>)) = Inl x"
    using that Update_persist [of md svc w t]
    by (cases "role_Update (role svc) (store w) (t\<lparr>Name := Name md, Handle := Handle md\<rparr>)") simp
  have p: "store w' = store w \<or>
        (\<exists>x s'. single_call (role svc) op (store w) = Some (Some x, s') \<and>
                e = RepoErr x \<and> store w' = s')"
    if "perform svc op w = (Some e, w')"
    using that by (rule perform_error_store)
  have q: "store w' = store w" if "perform svc op w = (Some e, w')" "\<forall>x. e \<noteq> RepoErr x"
    using p that by auto
  show ?thesis
    using c u p q
    by (simp add: Create_error_store Update_error_store Create_conflict Update_fetch_fail
          Update_conflict)
qed

text \<open>
  The repository \<open>faulty_repo\<close> writes and then fails in its create, in its update and
  in its delete. \<^verbatim>\<open>Create\<close> and \<^verbatim>\<open>Update\<close> report its error, and the store is the one
  from before the call; \<^verbatim>\<open>Delete\<close> reports its error with the store that the call
  left; a failed merge of the example repository leaves the store alone.
\<close>

theorem errors_leave_store_unchanged_witness:
  "role_Create faulty_repo [admins] \<lparr>ID = 0, Name = ''Guests'', Handle = ''guests''\<rparr>
     = (Inl ''write failed'', [admins, \<lparr>ID = 0, Name = ''Guests'', Handle = ''guests''\<rparr>])
   \<and> Create (demo_svc\<lparr>role := faulty_repo\<rparr>) \<lparr>ID = 0, Name = ''Guests'', Handle = ''guests''\<rparr>
         world0
       = (Inl (RepoErr ''write failed''),
          \<lparr>store = [admins],
           calls = [TxBegin, Call_FindByHandle ''guests'', Call_FindByName ''Guests'',
                    Call_Create \<lparr>ID = 0, Name = ''Guests'', Handle = ''guests''\<rparr>, TxRollback]\<rparr>)
   \<and> role_Update faulty_repo [admins] \<lparr>ID = 1, Name = ''Owners'', Handle = ''owners''\<rparr>
     = (Inl ''write failed'', [])
   \<and> Update (demo_svc\<lparr>role := faulty_repo\<rparr>) \<lparr>ID = 1, Name = ''Owners'', Handle = ''owners''\<rparr>
         world0
       = (Inl (RepoErr ''write failed''),
          \<lparr>store = [admins],
           calls = [TxBegin, Call_FindByID 1, Call_FindByHandle ''owners'',
                    Call_FindByName ''Owners'',
                    Call_Update \<lparr>ID = 1, Name = ''Owners'', Handle = ''owners''\<rparr>, TxRollback]\<rparr>)
   \<and> fst (Create demo_svc \<lparr>ID = 2, Name = ''Admins'', Handle = ''guests''\<rparr> world0)
       = Inl ErrRoleNameNotUnique
   \<and> store (snd (Create demo_svc \<lparr>ID = 2, Name = ''Admins'', Handle = ''guests''\<rparr> world0))
       = [admins]
   \<and> perform demo_svc (Op_Merge 1 2) world0
       = (Some (RepoErr ''not implemented''),
          \<lparr>store = [admins], calls = [Call_FindByID 1, Call_MergeByID 1 2]\<rparr>)
   \<and> single_call faulty_repo (Op_Delete 1) [admins] = Some (Some ''delete failed'', [])
   \<and> perform (demo_svc\<lparr>role := faulty_repo\<rparr>) (Op_Delete 1) world0
       = (Some (RepoErr ''delete failed''),
          \<lparr>store = [], calls = [Call_FindByID 1, Call_DeleteByID 1]\<rparr>)
   \<and> perform demo_svc (Op_Delete 0) world0 = (Some ErrInvalidID, world0)"
  using errors_leave_store_unchanged [where svc = "demo_svc\<lparr>role := faulty_repo\<rparr>"
      and md = "\<lparr>ID = 0, Name = ''Guests'', Handle = ''guests''\<rparr>" and w = world0
      and ?e1.0 = "RepoErr ''write failed''" and op = "Op_Delete 1"
      and e = "RepoErr ''delete failed''"
      and w' = "\<lparr>store = [], calls = [Call_FindByID 1, Call_DeleteByID 1]\<rparr>"
      and x = "''write failed''"]
    errors_leave_store_unchanged [where svc = "demo_svc\<lparr>role := faulty_repo\<rparr>"
      and md = "\<lparr>ID = 1, Name = ''Owners'', Handle = ''owners''\<rparr>" and w = world0
      and ?e2.0 = "RepoErr ''write failed''" and x = "''write failed''" and t = admins]
    errors_leave_store_unchanged [where svc = demo_svc
      and md = "\<lparr>ID = 2, Name = ''Admins'', Handle = ''guests''\<rparr>" and w = world0
      and ?e1.0 = ErrRoleNameNotUnique and ?e3.0 = ErrRoleNameNotUnique
      and op = "Op_Merge 1 2" and e = "RepoErr ''not implemented''"
      and w' = "\<lparr>store = [admins], calls = [Call_FindByID 1, Call_MergeByID 1 2]\<rparr>"]
    errors_leave_store_unchanged [where svc = demo_svc and w = world0
      and op = "Op_Delete 0" and e = ErrInvalidID and w' = world0]
  by (simp add: Create_def Update_def Merge_def Delete_def faulty_repo_def demo_defs Let_def)

text \<open>
  \<^verbatim>\<open>Delete(1)\<close> on the repository \<open>faulty_repo\<close>, whose delete removes the role and then
  fails, reports the error and leaves a store without the role.
\<close>

theorem Delete_error_after_write:
  "store world0 = [admins]
   \<and> Delete (demo_svc\<lparr>role := faulty_repo\<rparr>) 1 world0
       = (Some (RepoErr ''delete failed''),
          \<lparr>store = [], calls = [Call_FindByID 1, Call_DeleteByID 1]\<rparr>)"
  by (simp add: Delete_def faulty_repo_def demo_defs)

end
